theory Spec2Isabelle
  imports Main
begin

section \<open>JavaScript values\<close>

text \<open>
  The orchestrator (src/services/orchestrator.js) works on untyped request bags and on
  whatever its collaborators resolve with. Values are modelled as JSON-like data plus
  \<open>undefined\<close> and \<open>Date\<close> objects. Numbers are integers (no NaN, no fractions).
  A \<open>char\<close> stands for one UTF-16 code unit below 0x100; the emoji and the bullet of the
  constant message texts are written as ASCII short codes (no operation of the source
  inspects them). Values with accessors, proxies, symbols and functions are outside the
  model.
\<close>

datatype jsval =
    Undefined
  | Null
  | Bool bool
  | Num int
  | Str string
  | DateV int
  | Arr "jsval list"
  | Obj "(string \<times> jsval) list"

fun nullish :: "jsval \<Rightarrow> bool" where
  "nullish Undefined = True"
| "nullish Null = True"
| "nullish _ = False"

text \<open>ToBoolean: what \<open>filter(Boolean)\<close> and \<open>||\<close> test.\<close>

fun truthy :: "jsval \<Rightarrow> bool" where
  "truthy Undefined = False"
| "truthy Null = False"
| "truthy (Bool b) = b"
| "truthy (Num n) = (n \<noteq> 0)"
| "truthy (Str s) = (s \<noteq> [])"
| "truthy (DateV _) = True"
| "truthy (Arr _) = True"
| "truthy (Obj _) = True"

subsection \<open>ToString, as a template literal applies it\<close>

definition digit_char :: "nat \<Rightarrow> char" where
  "digit_char d = char_of (48 + d)"

fun digits :: "nat \<Rightarrow> string" where
  "digits n = (if n < 10 then [digit_char n] else digits (n div 10) @ [digit_char (n mod 10)])"

declare digits.simps [simp del]

definition show_int :: "int \<Rightarrow> string" where
  "show_int i = (if i < 0 then CHR ''-'' # digits (nat (- i)) else digits (nat i))"

fun intersperse :: "string \<Rightarrow> string list \<Rightarrow> string" where
  "intersperse sep [] = []"
| "intersperse sep [x] = x"
| "intersperse sep (x # y # ys) = x @ sep @ intersperse sep (y # ys)"

text \<open>
  The text of a Date depends on the host's time zone; no template of the source
  interpolates a Date directly, so the model gives it a fixed placeholder.
\<close>

fun toStr :: "jsval \<Rightarrow> string" where
  "toStr Undefined = ''undefined''"
| "toStr Null = ''null''"
| "toStr (Bool b) = (if b then ''true'' else ''false'')"
| "toStr (Num n) = show_int n"
| "toStr (Str s) = s"
| "toStr (DateV t) = ''[Date '' @ show_int t @ '']''"
| "toStr (Arr xs) = intersperse '','' (map (\<lambda>x. if nullish x then [] else toStr x) xs)"
| "toStr (Obj kvs) = ''[object Object]''"

text \<open>\<open>Array.prototype.join(sep)\<close>: null and undefined elements print as nothing.\<close>

definition join :: "string \<Rightarrow> jsval list \<Rightarrow> string" where
  "join sep xs = intersperse sep (map (\<lambda>x. if nullish x then [] else toStr x) xs)"

subsection \<open>Thrown values and property access\<close>

text \<open>
  A computation either throws a value (\<open>Inl\<close>) or returns one (\<open>Inr\<close>). The engine's own
  TypeErrors are objects with a \<open>message\<close>; the wording is V8's.
\<close>

definition typeError :: "string \<Rightarrow> jsval" where
  "typeError msg = Obj [(''name'', Str ''TypeError''), (''message'', Str msg)]"

definition lookup :: "(string \<times> jsval) list \<Rightarrow> string \<Rightarrow> jsval" where
  "lookup kvs k = (case map_of kvs k of Some v \<Rightarrow> v | None \<Rightarrow> Undefined)"

text \<open>
  \<open>v.k\<close>: reading a property of \<open>undefined\<close> or \<open>null\<close> throws; a missing property is
  \<open>undefined\<close>; strings and arrays have a \<open>length\<close>.
\<close>

fun getP :: "jsval \<Rightarrow> string \<Rightarrow> jsval + jsval" where
  "getP Undefined k =
     Inl (typeError (''Cannot read properties of undefined (reading '' @ [CHR 0x27] @ k @ [CHR 0x27] @ '')''))"
| "getP Null k =
     Inl (typeError (''Cannot read properties of null (reading '' @ [CHR 0x27] @ k @ [CHR 0x27] @ '')''))"
| "getP (Obj kvs) k = Inr (lookup kvs k)"
| "getP (Str s) k = Inr (if k = ''length'' then Num (int (length s)) else Undefined)"
| "getP (Arr xs) k = Inr (if k = ''length'' then Num (int (length xs)) else Undefined)"
| "getP _ k = Inr Undefined"

section \<open>Effects: collaborators, the clock, the logger\<close>

text \<open>
  The connectors (\<open>../integrations/*.js\<close>), the logger and the JavaScript built-ins are
  not part of the source under study; they are parameters of the model. A collaborator
  call is answered by \<open>respond\<close>, which sees the whole history of the invocation, so a
  collaborator may be stateful. A call resolves, rejects, or throws before returning a
  promise; a call that never settles is outside the model. \<open>Date.now()\<close> and
  \<open>new Date()\<close> read \<open>clock\<close>, again a function of the history, so two reads may differ.
\<close>

datatype outcome = Resolves jsval | Rejects jsval | Throws jsval

datatype event =
    Call nat string "jsval list" outcome
  | Now int
  | Log string string jsval

text \<open>The fields the constructor assigns (lines 10-21); connectors are object identities.\<close>

record orchestrator =
  github :: nat
  slack :: nat
  notion :: nat
  calendar :: nat
  automation :: nat
  config :: jsval
  isInitialized :: bool

record env =
  respond :: "event list \<Rightarrow> nat \<Rightarrow> string \<Rightarrow> jsval list \<Rightarrow> outcome"
  clock :: "event list \<Rightarrow> int"
  issue_settles_first :: "event list \<Rightarrow> bool"
  toISOString :: "int \<Rightarrow> string"
  NOTION_PROJECTS_DB_ID :: jsval
  NOTION_INCIDENTS_DB_ID :: jsval

record world =
  trace :: "event list"
  self :: orchestrator

type_synonym 'a js = "world \<Rightarrow> (jsval + 'a) \<times> world"

definition ret :: "'a \<Rightarrow> 'a js" where
  "ret x = (\<lambda>s. (Inr x, s))"

definition throw :: "jsval \<Rightarrow> 'a js" where
  "throw e = (\<lambda>s. (Inl e, s))"

definition lift :: "jsval + 'a \<Rightarrow> 'a js" where
  "lift r = (\<lambda>s. (r, s))"

definition bnd :: "'a js \<Rightarrow> ('a \<Rightarrow> 'b js) \<Rightarrow> 'b js" where
  "bnd m f = (\<lambda>s. case m s of (Inl e, s') \<Rightarrow> (Inl e, s') | (Inr x, s') \<Rightarrow> f x s')"

text \<open>\<open>try { m } catch (error) { h error }\<close>\<close>

definition catch :: "'a js \<Rightarrow> (jsval \<Rightarrow> 'a js) \<Rightarrow> 'a js" where
  "catch m h = (\<lambda>s. case m s of (Inl e, s') \<Rightarrow> h e s' | (Inr x, s') \<Rightarrow> (Inr x, s'))"

fun sequence :: "'a js list \<Rightarrow> 'a list js" where
  "sequence [] = ret []"
| "sequence (m # ms) = bnd m (\<lambda>x. bnd (sequence ms) (\<lambda>xs. ret (x # xs)))"

definition emit :: "event \<Rightarrow> unit js" where
  "emit ev = (\<lambda>s. (Inr (), s\<lparr>trace := trace s @ [ev]\<rparr>))"

definition now :: "env \<Rightarrow> int js" where
  "now E = (\<lambda>s. let t = clock E (trace s) in (Inr t, s\<lparr>trace := trace s @ [Now t]\<rparr>))"

definition logger :: "string \<Rightarrow> string \<Rightarrow> jsval \<Rightarrow> unit js" where
  "logger level msg meta = emit (Log level msg meta)"

text \<open>
  \<open>this.<connector>.<method>(args)\<close>: the receiver is read from the orchestrator's field,
  the collaborator answers, the call is recorded.
\<close>

definition invoke :: "env \<Rightarrow> (orchestrator \<Rightarrow> nat) \<Rightarrow> string \<Rightarrow> jsval list \<Rightarrow> outcome js" where
  "invoke E conn meth args = (\<lambda>s.
     let r = respond E (trace s) (conn (self s)) meth args
     in (Inr r, s\<lparr>trace := trace s @ [Call (conn (self s)) meth args r]\<rparr>))"

fun await :: "outcome \<Rightarrow> jsval js" where
  "await (Resolves v) = ret v"
| "await (Rejects e) = throw e"
| "await (Throws e) = throw e"

text \<open>\<open>await this.<connector>.<method>(a1, ..., an)\<close>, arguments evaluated left to right.\<close>

definition call :: "env \<Rightarrow> (orchestrator \<Rightarrow> nat) \<Rightarrow> string \<Rightarrow> jsval js list \<Rightarrow> jsval js" where
  "call E conn meth argms = bnd (sequence argms) (\<lambda>args. bnd (invoke E conn meth args) await)"

text \<open>
  \<open>await Promise.all([p1, p2])\<close> on two calls already issued: it resolves with both
  values, or rejects with the rejection that settles first.
\<close>

fun promise_all2 :: "env \<Rightarrow> outcome \<Rightarrow> outcome \<Rightarrow> (jsval \<times> jsval) js" where
  "promise_all2 E (Resolves a) (Resolves b) = ret (a, b)"
| "promise_all2 E (Resolves a) (Rejects e) = throw e"
| "promise_all2 E (Resolves a) (Throws e) = throw e"
| "promise_all2 E (Rejects e) (Resolves b) = throw e"
| "promise_all2 E (Throws e) _ = throw e"
| "promise_all2 E (Rejects e1) (Rejects e2) =
     (\<lambda>s. if issue_settles_first E (trace s) then throw e2 s else throw e1 s)"
| "promise_all2 E (Rejects e1) (Throws e2) = throw e2"

subsection \<open>Expressions\<close>

definition field :: "jsval \<Rightarrow> string \<Rightarrow> jsval js" where
  "field v k = lift (getP v k)"

text \<open>\<open>v.k1.k2\<close>\<close>

definition field2 :: "jsval \<Rightarrow> string \<Rightarrow> string \<Rightarrow> jsval js" where
  "field2 v k1 k2 = bnd (field v k1) (\<lambda>w. field w k2)"

definition lit :: "string \<Rightarrow> jsval js" where
  "lit s = ret (Str s)"

text \<open>A template literal (or a \<open>+\<close> chain of them): the parts in order, each through ToString.\<close>

definition tmpl :: "jsval js list \<Rightarrow> jsval js" where
  "tmpl parts = bnd (sequence parts) (\<lambda>vs. ret (Str (concat (map toStr vs))))"

text \<open>An object literal: the property values in order.\<close>

definition obj :: "(string \<times> jsval js) list \<Rightarrow> jsval js" where
  "obj kms = bnd (sequence (map snd kms)) (\<lambda>vs. ret (Obj (zip (map fst kms) vs)))"

definition arr :: "jsval js list \<Rightarrow> jsval js" where
  "arr ms = bnd (sequence ms) (\<lambda>vs. ret (Arr vs))"

text \<open>\<open>a || b\<close>\<close>

definition orElse :: "jsval js \<Rightarrow> jsval js \<Rightarrow> jsval js" where
  "orElse m1 m2 = bnd m1 (\<lambda>v. if truthy v then ret v else m2)"

text \<open>
  \<open>...v\<close> in an array literal: arrays and strings are iterable, nothing else in the
  model is.
\<close>

fun spread :: "string \<Rightarrow> jsval \<Rightarrow> jsval list js" where
  "spread what (Arr xs) = ret xs"
| "spread what (Str s) = ret (map (\<lambda>c. Str [c]) s)"
| "spread what v = throw (typeError (what @ '' is not iterable''))"

text \<open>
  \<open>v.map(f)\<close>: reading \<open>map\<close> throws on null and undefined; only an array has the
  method.
\<close>

definition mapArr :: "string \<Rightarrow> jsval \<Rightarrow> (jsval \<Rightarrow> jsval js) \<Rightarrow> jsval js" where
  "mapArr what v f =
     bnd (field v ''map'') (\<lambda>_.
       case v of
         Arr xs \<Rightarrow> bnd (sequence (map f xs)) (\<lambda>ys. ret (Arr ys))
       | _ \<Rightarrow> throw (typeError (what @ ''.map is not a function'')))"

text \<open>\<open>v.filter(Boolean)\<close> on an array.\<close>

definition filterBoolean :: "jsval list \<Rightarrow> jsval list" where
  "filterBoolean xs = filter truthy xs"

text \<open>\<open>v.join(', ')\<close> on the array a \<open>map\<close> returned.\<close>

definition joinArr :: "string \<Rightarrow> jsval \<Rightarrow> jsval js" where
  "joinArr sep v = (case v of Arr xs \<Rightarrow> ret (Str (join sep xs)) | _ \<Rightarrow> throw (typeError ''join is not a function''))"

text \<open>\<open>email.split('@')[0]\<close>: the text before the first \<open>@\<close>; only a string has \<open>split\<close>.\<close>

definition localPart :: "jsval \<Rightarrow> jsval js" where
  "localPart email =
     bnd (field email ''split'') (\<lambda>_.
       case email of
         Str s \<Rightarrow> ret (Str (takeWhile (\<lambda>c. c \<noteq> CHR ''@'') s))
       | _ \<Rightarrow> throw (typeError ''email.split is not a function''))"

text \<open>\<open>v.slice(0, n)\<close>: strings and arrays have \<open>slice\<close>.\<close>

definition slice0 :: "string \<Rightarrow> nat \<Rightarrow> jsval \<Rightarrow> jsval js" where
  "slice0 what n v =
     bnd (field v ''slice'') (\<lambda>_.
       case v of
         Str s \<Rightarrow> ret (Str (take n s))
       | Arr xs \<Rightarrow> ret (Arr (take n xs))
       | _ \<Rightarrow> throw (typeError (what @ ''.slice is not a function'')))"

text \<open>\<open>s.slice(-n)\<close> on a string: its last \<open>n\<close> code units.\<close>

definition lastN :: "nat \<Rightarrow> string \<Rightarrow> string" where
  "lastN n s = drop (length s - n) s"

subsection \<open>Lower case and the slug replacement\<close>

text \<open>
  \<open>String.prototype.toLowerCase\<close> on code units below 0x100: A-Z and the Latin-1
  capitals (0xC0-0xDE but 0xD7) move up by 0x20.
\<close>

definition lower_char :: "char \<Rightarrow> char" where
  "lower_char c =
     (let n = (of_char c :: nat) in
      if 65 \<le> n \<and> n \<le> 90 then char_of (n + 32)
      else if 192 \<le> n \<and> n \<le> 222 \<and> n \<noteq> 215 then char_of (n + 32)
      else c)"

definition toLowerCase :: "string \<Rightarrow> string" where
  "toLowerCase s = map lower_char s"

text \<open>The character class \<open>[a-z0-9-]\<close>.\<close>

definition slug_char :: "char \<Rightarrow> bool" where
  "slug_char c =
     (let n = (of_char c :: nat) in
      (97 \<le> n \<and> n \<le> 122) \<or> (48 \<le> n \<and> n \<le> 57) \<or> n = 45)"

text \<open>\<open>s.replace(/[^a-z0-9-]/g, '-')\<close>\<close>

definition replace_non_slug :: "string \<Rightarrow> string" where
  "replace_non_slug s = map (\<lambda>c. if slug_char c then c else CHR ''-'') s"

text \<open>\<open>v.toLowerCase().replace(/[^a-z0-9-]/g, '-')\<close>: only a string has \<open>toLowerCase\<close>.\<close>

definition lowerReplace :: "string \<Rightarrow> jsval \<Rightarrow> jsval js" where
  "lowerReplace what v =
     bnd (field v ''toLowerCase'') (\<lambda>_.
       case v of
         Str s \<Rightarrow> ret (Str (replace_non_slug (toLowerCase s)))
       | _ \<Rightarrow> throw (typeError (what @ ''.toLowerCase is not a function'')))"

definition emoji :: "string \<Rightarrow> string" where
  "emoji name = '':'' @ name @ '':''"

definition NL :: string where
  "NL = [CHR 0x0A]"
definition tmplS :: "jsval js list \<Rightarrow> string js" where
  "tmplS parts = bnd (sequence parts) (\<lambda>vs. ret (concat (map toStr vs)))"

text \<open>\<open>logger.<level>(msg, { ... })\<close>: the metadata object is built first.\<close>

definition log :: "string \<Rightarrow> string \<Rightarrow> (string \<times> jsval js) list \<Rightarrow> unit js" where
  "log level msg kms = bnd (obj kms) (logger level msg)"

text \<open>A call that throws before returning a promise never reaches \<open>Promise.all\<close>.\<close>

fun issued :: "outcome \<Rightarrow> outcome js" where
  "issued (Throws e) = throw e"
| "issued p = ret p"

text \<open>\<open>new Date()\<close> and \<open>new Date(Date.now() + k)\<close>\<close>

definition newDate :: "env \<Rightarrow> int \<Rightarrow> jsval js" where
  "newDate E k = bnd (now E) (\<lambda>t. ret (DateV (t + k)))"

section \<open>scheduleCodeReview (lines 35-288)\<close>

text \<open>Step 1, lines 47-60: both fetches are issued, then joined.\<close>

definition review_fetch :: "env \<Rightarrow> jsval \<Rightarrow> jsval \<Rightarrow> jsval \<Rightarrow> (jsval \<times> jsval) js" where
  "review_fetch E args userContext requestId =
     bnd (sequence [field args ''repository'', field args ''pr_number'',
                    field userContext ''githubToken'', ret requestId]) (\<lambda>a1.
     bnd (bnd (invoke E github ''getPullRequest'' a1) issued) (\<lambda>p1.
     bnd (sequence [field args ''repository'', field args ''issue_number'',
                    field userContext ''githubToken'', ret requestId]) (\<lambda>a2.
     bnd (bnd (invoke E github ''getIssue'' a2) issued) (\<lambda>p2.
     promise_all2 E p1 p2))))"

text \<open>Step 2, lines 63-67: the attendees.\<close>

definition review_attendees :: "jsval \<Rightarrow> jsval \<Rightarrow> jsval list js" where
  "review_attendees args prDetails =
     bnd (bnd (bnd (field prDetails ''requestedReviewers'')
                (\<lambda>rs. mapArr ''prDetails.requestedReviewers'' rs (\<lambda>r. field r ''email'')))
              (spread ''prDetails.requestedReviewers.map(...)'')) (\<lambda>reviewers.
     bnd (field2 prDetails ''author'' ''email'') (\<lambda>author.
     bnd (bnd (orElse (field args ''additional_attendees'') (ret (Arr [])))
              (spread ''(args.additional_attendees || [])'')) (\<lambda>extras.
     ret (filterBoolean (reviewers @ [author] @ extras)))))"

text \<open>Lines 69-80.\<close>

definition review_findTime :: "env \<Rightarrow> jsval \<Rightarrow> jsval \<Rightarrow> jsval \<Rightarrow> jsval list \<Rightarrow> jsval js" where
  "review_findTime E args userContext requestId attendees =
     call E calendar ''findOptimalTime''
       [ret (Arr attendees), field userContext ''calendarToken'', ret requestId,
        obj [(''duration'', orElse (field args ''duration'') (ret (Num 30))),
             (''timeMin'', newDate E (30 * 60 * 1000)),
             (''timeMax'', newDate E (24 * 60 * 60 * 1000)),
             (''workingHours'', ret (Obj [(''start'', Num 9), (''end'', Num 17)])),
             (''bufferMinutes'', ret (Num 15))]]"

text \<open>Line 84: the channel name.\<close>

definition review_channelName :: "jsval \<Rightarrow> jsval \<Rightarrow> jsval js" where
  "review_channelName args prDetails =
     bnd (tmplS [lit ''pr-'', field args ''pr_number'', lit ''-'',
                 bnd (field prDetails ''title'') (lowerReplace ''prDetails.title'')])
         (\<lambda>s. ret (Str (take 80 s)))"

text \<open>Lines 83-106.\<close>

definition review_channelData :: "jsval \<Rightarrow> jsval \<Rightarrow> jsval \<Rightarrow> jsval list \<Rightarrow> jsval js" where
  "review_channelData args prDetails issueDetails attendees =
     obj [(''name'', review_channelName args prDetails),
          (''type'', lit ''review''),
          (''topic'', tmpl [lit ''Code review for PR #'', field args ''pr_number'', lit '': '',
                            field prDetails ''title'']),
          (''purpose'', tmpl [lit ''Review: '', field prDetails ''title'', lit '' (Fixes #'',
                              field args ''issue_number'', lit '')'']),
          (''private'', ret (Bool False)),
          (''members'', mapArr ''attendees'' (Arr attendees) localPart),
          (''context'',
             obj [(''purpose'', tmpl [lit ''Code review for '', field args ''repository'',
                                      lit '' PR #'', field args ''pr_number'']),
                  (''prNumber'', field args ''pr_number''),
                  (''issueNumber'', field args ''issue_number''),
                  (''repository'', field args ''repository''),
                  (''links'',
                     arr [obj [(''title'', tmpl [lit ''Pull Request #'', field args ''pr_number'']),
                               (''url'', field2 prDetails ''urls'' ''html'')],
                          obj [(''title'', tmpl [lit ''Issue #'', field args ''issue_number'']),
                               (''url'', field issueDetails ''html_url'')]])])]"

text \<open>Lines 115-133: the meeting.\<close>

definition review_meetingSpec ::
  "jsval \<Rightarrow> jsval \<Rightarrow> jsval \<Rightarrow> jsval list \<Rightarrow> jsval \<Rightarrow> jsval \<Rightarrow> jsval js" where
  "review_meetingSpec args prDetails issueDetails attendees meetingTime channel =
     obj [(''title'', tmpl [lit ''Code Review: '', field prDetails ''title'']),
          (''description'',
             tmpl [lit ''Code review for PR #'', field args ''pr_number'', lit '' (Fixes #'',
                   field args ''issue_number'', lit '')\<newline>\<newline>'',
                   lit ''Pull Request: '', field2 prDetails ''urls'' ''html'', lit ''\<newline>'',
                   lit ''Issue: '', field issueDetails ''html_url'', lit ''\<newline>'',
                   lit ''Slack Channel: '', field channel ''webUrl'', lit ''\<newline>\<newline>'',
                   lit ''Changes Summary:\<newline>'',
                   lit ''- Files changed: '', field2 prDetails ''stats'' ''changedFiles'', lit ''\<newline>'',
                   lit ''- Additions: +'', field2 prDetails ''stats'' ''additions'', lit ''\<newline>'',
                   lit ''- Deletions: -'', field2 prDetails ''stats'' ''deletions'', lit ''\<newline>\<newline>'',
                   lit ''Please review the changes before the meeting.'']),
          (''startTime'', field meetingTime ''start''),
          (''endTime'', field meetingTime ''end''),
          (''attendees'', ret (Arr attendees)),
          (''location'', field channel ''webUrl''),
          (''conferenceData'',
             obj [(''createRequest'',
                     obj [(''requestId'', tmpl [lit ''pr-'', field args ''pr_number''])])])]"

text \<open>Lines 136-169: the notes page.\<close>

definition review_notesDoc ::
  "jsval \<Rightarrow> jsval \<Rightarrow> jsval \<Rightarrow> jsval list \<Rightarrow> jsval \<Rightarrow> jsval js" where
  "review_notesDoc args prDetails issueDetails attendees channel =
     obj [(''title'', tmpl [lit ''Code Review: '', field prDetails ''title'']),
          (''type'', lit ''Meeting Notes''),
          (''content'',
             tmpl [lit ''# Code Review Meeting Notes\<newline>\<newline>'',
                   lit ''## Pull Request Details\<newline>'',
                   lit ''- PR: #'', field args ''pr_number'', lit '' - '', field prDetails ''title'',
                   lit ''\<newline>'',
                   lit ''- Author: '', field2 prDetails ''author'' ''name'', lit ''\<newline>'',
                   lit ''- Reviewers: '',
                   bnd (bnd (field prDetails ''requestedReviewers'')
                          (\<lambda>rs. mapArr ''prDetails.requestedReviewers'' rs (\<lambda>r. field r ''name'')))
                       (joinArr '', ''),
                   lit ''\<newline>'',
                   lit ''- Issue: #'', field args ''issue_number'', lit ''\<newline>\<newline>'',
                   lit ''## Links\<newline>'',
                   lit ''- [Pull Request]('', field2 prDetails ''urls'' ''html'', lit '')\<newline>'',
                   lit ''- [Issue]('', field issueDetails ''html_url'', lit '')\<newline>'',
                   lit ''- [Slack Channel]('', field channel ''webUrl'', lit '')\<newline>'',
                   lit ''- [Meeting Recording](TBD)\<newline>\<newline>'',
                   lit ''## Agenda\<newline>'',
                   lit ''1. PR Overview by Author\<newline>'',
                   lit ''2. Technical Implementation Review\<newline>'',
                   lit ''3. Testing Strategy Discussion\<newline>'',
                   lit ''4. Action Items\<newline>\<newline>'',
                   lit ''## Notes\<newline>'',
                   lit ''(To be filled during the meeting)\<newline>\<newline>'',
                   lit ''## Action Items\<newline>'',
                   lit ''- [ ] Review comments addressed\<newline>'',
                   lit ''- [ ] Tests updated/added\<newline>'',
                   lit ''- [ ] Documentation updated\<newline>\<newline>'',
                   lit ''## Next Steps\<newline>'',
                   lit ''(To be determined during the meeting)'']),
          (''owners'', ret (Arr attendees))]"

text \<open>\<open>meeting.hangoutLink || meeting.htmlLink\<close>\<close>

definition joinLink :: "jsval \<Rightarrow> jsval js" where
  "joinLink meeting = orElse (field meeting ''hangoutLink'') (field meeting ''htmlLink'')"

definition mrkdwn :: "jsval js \<Rightarrow> jsval js" where
  "mrkdwn text = obj [(''type'', lit ''mrkdwn''), (''text'', text)]"

text \<open>Lines 174-245: the notification.\<close>

definition review_message ::
  "jsval \<Rightarrow> jsval \<Rightarrow> jsval \<Rightarrow> jsval \<Rightarrow> jsval \<Rightarrow> jsval \<Rightarrow> jsval js" where
  "review_message args prDetails issueDetails meetingTime meeting notionPage =
     obj [(''text'',
             tmpl [lit (emoji ''mag''), lit '' *Code Review Scheduled: '', field prDetails ''title'',
                   lit ''*\<newline>\<newline>'',
                   lit ''*Pull Request:* #'', field args ''pr_number'', lit ''\<newline>'',
                   lit ''*Fixes Issue:* #'', field args ''issue_number'', lit ''\<newline>'',
                   lit ''*Author:* '', field2 prDetails ''author'' ''name'', lit ''\<newline>\<newline>'',
                   lit ''*Meeting Scheduled:* '', field meetingTime ''formatted'', lit ''\<newline>'',
                   lit ''*Join:* '', joinLink meeting]),
          (''blocks'',
             arr [obj [(''type'', lit ''header''),
                       (''text'', obj [(''type'', lit ''plain_text''),
                                       (''text'', tmpl [lit (emoji ''mag''), lit '' Code Review: '',
                                                        field prDetails ''title''])])],
                  obj [(''type'', lit ''section''),
                       (''fields'',
                          arr [mrkdwn (tmpl [lit ''*Pull Request:*\<newline><'',
                                             field2 prDetails ''urls'' ''html'', lit ''|#'',
                                             field args ''pr_number'', lit ''>'']),
                               mrkdwn (tmpl [lit ''*Fixes Issue:*\<newline><'',
                                             field issueDetails ''html_url'', lit ''|#'',
                                             field args ''issue_number'', lit ''>''])])],
                  obj [(''type'', lit ''section''),
                       (''fields'',
                          arr [mrkdwn (tmpl [lit ''*Author:*\<newline>'',
                                             field2 prDetails ''author'' ''name'']),
                               mrkdwn (tmpl [lit ''*Reviewers:*\<newline>'',
                                  bnd (bnd (field prDetails ''requestedReviewers'')
                                         (\<lambda>rs. mapArr ''prDetails.requestedReviewers'' rs
                                                 (\<lambda>r. field r ''name'')))
                                      (joinArr '', '')])])],
                  obj [(''type'', lit ''section''),
                       (''fields'',
                          arr [mrkdwn (tmpl [lit ''*Meeting Time:*\<newline>'',
                                             field meetingTime ''formatted'']),
                               mrkdwn (tmpl [lit ''*Changes:*\<newline>'',
                                             field2 prDetails ''stats'' ''changedFiles'',
                                             lit '' files (+'',
                                             field2 prDetails ''stats'' ''additions'', lit '', -'',
                                             field2 prDetails ''stats'' ''deletions'', lit '')''])])],
                  obj [(''type'', lit ''section''),
                       (''text'',
                          mrkdwn (tmpl [lit ''*Important Links:*\<newline>'', lit (emoji ''bullet''),
                                        lit '' <'', joinLink meeting, lit ''|Join Meeting>\<newline>'',
                                        lit (emoji ''bullet''), lit '' <'', field notionPage ''url'',
                                        lit ''|Meeting Notes>\<newline>'',
                                        lit (emoji ''bullet''), lit '' <'',
                                        field2 prDetails ''urls'' ''html'',
                                        lit ''|Pull Request>\<newline>'',
                                        lit (emoji ''bullet''), lit '' <'',
                                        field issueDetails ''html_url'', lit ''|Issue>'']))],
                  obj [(''type'', lit ''context''),
                       (''elements'',
                          arr [mrkdwn (tmpl [lit (emoji ''bell''),
                                 lit '' You'll receive a calendar invitation shortly. Please review the PR before the meeting.''])])]])]"

text \<open>Lines 250-274: the success envelope.\<close>

definition review_result ::
  "env \<Rightarrow> jsval \<Rightarrow> int \<Rightarrow> jsval \<Rightarrow> jsval \<Rightarrow> jsval list \<Rightarrow> jsval \<Rightarrow> jsval \<Rightarrow> jsval \<Rightarrow> jsval
   \<Rightarrow> jsval js" where
  "review_result E args startTime prDetails issueDetails attendees meetingTime channel meeting
       notionPage =
     bnd (now E) (\<lambda>t.
     let executionTime = t - startTime in
     obj [(''success'', ret (Bool True)),
          (''message'', tmpl [lit ''Code review scheduled for PR #'', field args ''pr_number'']),
          (''executionTime'', tmpl [ret (Num executionTime), lit ''ms'']),
          (''details'',
             obj [(''repository'', field args ''repository''),
                  (''pr_number'', field args ''pr_number''),
                  (''issue_number'', field args ''issue_number''),
                  (''slack_channel'', tmpl [lit ''#'', field channel ''name'']),
                  (''slack_url'', field channel ''webUrl''),
                  (''github_pr'', field2 prDetails ''urls'' ''html''),
                  (''github_issue'', field issueDetails ''html_url''),
                  (''meeting'',
                     obj [(''time'', field meetingTime ''formatted''),
                          (''url'', joinLink meeting),
                          (''attendees'', ret (Arr attendees))]),
                  (''notion'',
                     obj [(''title'', tmpl [lit ''Code Review: '', field prDetails ''title'']),
                          (''url'', field notionPage ''url'')])])])"

text \<open>Lines 38-274: the body of the \<open>try\<close> block.\<close>

definition review_try :: "env \<Rightarrow> jsval \<Rightarrow> jsval \<Rightarrow> jsval \<Rightarrow> int \<Rightarrow> jsval js" where
  "review_try E args userContext requestId startTime =
     bnd (log ''info'' ''Starting code review workflow''
            [(''requestId'', ret requestId),
             (''repository'', field args ''repository''),
             (''prNumber'', field args ''pr_number''),
             (''issueNumber'', field args ''issue_number'')]) (\<lambda>_.
     bnd (review_fetch E args userContext requestId) (\<lambda>(prDetails, issueDetails).
     bnd (review_attendees args prDetails) (\<lambda>attendees.
     bnd (review_findTime E args userContext requestId attendees) (\<lambda>meetingTime.
     bnd (review_channelData args prDetails issueDetails attendees) (\<lambda>channelData.
     bnd (call E slack ''createReviewChannel''
            [ret channelData, field userContext ''slackToken'', ret requestId]) (\<lambda>channel.
     bnd (call E calendar ''createMeeting''
            [review_meetingSpec args prDetails issueDetails attendees meetingTime channel,
             field userContext ''calendarToken'', ret requestId]) (\<lambda>meeting.
     bnd (call E notion ''createDocument''
            [ret (NOTION_PROJECTS_DB_ID E),
             review_notesDoc args prDetails issueDetails attendees channel,
             field userContext ''notionToken'', ret requestId]) (\<lambda>notionPage.
     bnd (call E slack ''sendMessage''
            [field channel ''id'',
             review_message args prDetails issueDetails meetingTime meeting notionPage,
             field userContext ''slackToken'', ret requestId]) (\<lambda>_.
     review_result E args startTime prDetails issueDetails attendees meetingTime channel meeting
       notionPage)))))))))"

text \<open>Lines 276-287: the \<open>catch\<close> block.\<close>

definition review_catch :: "env \<Rightarrow> jsval \<Rightarrow> int \<Rightarrow> jsval \<Rightarrow> jsval js" where
  "review_catch E requestId startTime error =
     bnd (log ''error'' ''Code review workflow failed''
            [(''requestId'', ret requestId), (''error'', field error ''message'')]) (\<lambda>_.
     obj [(''success'', ret (Bool False)),
          (''message'', tmpl [lit ''Failed to schedule code review: '', field error ''message'']),
          (''executionTime'',
             tmpl [bnd (now E) (\<lambda>t. ret (Num (t - startTime))), lit ''ms''])])"

definition scheduleCodeReview :: "env \<Rightarrow> jsval \<Rightarrow> jsval \<Rightarrow> jsval \<Rightarrow> jsval js" where
  "scheduleCodeReview E args userContext requestId =
     bnd (now E) (\<lambda>startTime.
     catch (review_try E args userContext requestId startTime)
           (review_catch E requestId startTime))"
section \<open>createProjectKickoff (lines 290-464)\<close>

text \<open>Line 310: the repository name.\<close>

definition kickoff_repoName :: "jsval \<Rightarrow> jsval js" where
  "kickoff_repoName args = bnd (field args ''project_name'') (lowerReplace ''args.project_name'')"

text \<open>Lines 356-411: the welcome message.\<close>

definition kickoff_message :: "jsval \<Rightarrow> jsval \<Rightarrow> jsval \<Rightarrow> jsval \<Rightarrow> jsval js" where
  "kickoff_message args notionProject repository meeting =
     obj [(''text'',
             tmpl [lit (emoji ''rocket''), lit '' *Project '', field args ''project_name'',
                   lit '' has been created!*\<newline>\<newline>'',
                   lit ''*Resources:*\<newline>'',
                   lit (emoji ''bullet''), lit '' Notion Workspace: '',
                   field notionProject ''projectPageUrl'', lit ''\<newline>'',
                   lit (emoji ''bullet''), lit '' GitHub Repository: '',
                   field repository ''html_url'', lit ''\<newline>'',
                   lit (emoji ''bullet''), lit '' Kickoff Meeting: '',
                   field meeting ''htmlLink'', lit ''\<newline>\<newline>'',
                   lit ''Please review the project documentation in Notion and we'll discuss everything in detail during the kickoff meeting.'']),
          (''blocks'',
             arr [obj [(''type'', lit ''header''),
                       (''text'', obj [(''type'', lit ''plain_text''),
                                       (''text'', tmpl [lit (emoji ''rocket''), lit '' Project '',
                                                        field args ''project_name'',
                                                        lit '' has been created!''])])],
                  obj [(''type'', lit ''section''),
                       (''text'', mrkdwn (lit ''Welcome to the project channel! All project-related discussions will happen here.''))],
                  obj [(''type'', lit ''section''),
                       (''text'', mrkdwn (lit ''*Important Links:*''))],
                  obj [(''type'', lit ''section''),
                       (''fields'',
                          arr [mrkdwn (tmpl [lit ''*'', lit (emoji ''memo''),
                                             lit '' Notion Workspace*\<newline><'',
                                             field notionProject ''projectPageUrl'',
                                             lit ''|Open Documentation>'']),
                               mrkdwn (tmpl [lit ''*'', lit (emoji ''bar_chart''),
                                             lit '' GitHub Repository*\<newline><'',
                                             field repository ''html_url'', lit ''|'',
                                             field repository ''name'', lit ''>''])])],
                  obj [(''type'', lit ''section''),
                       (''text'',
                          mrkdwn (tmpl [lit ''*'', lit (emoji ''spiral_calendar''),
                                        lit '' Kickoff Meeting*\<newline>'',
                                        field meeting ''summary'', lit ''\<newline>'',
                                        field meeting ''htmlLink'']))]])]"

text \<open>Lines 413-447: the final log entry and the success envelope.\<close>

definition kickoff_result ::
  "env \<Rightarrow> jsval \<Rightarrow> jsval \<Rightarrow> int \<Rightarrow> jsval \<Rightarrow> jsval \<Rightarrow> jsval \<Rightarrow> jsval \<Rightarrow> jsval js" where
  "kickoff_result E args requestId startTime notionProject repository channel meeting =
     bnd (now E) (\<lambda>t.
     let executionTime = t - startTime in
     bnd (log ''info'' ''Project kickoff completed successfully''
            [(''requestId'', ret requestId),
             (''projectName'', field args ''project_name''),
             (''notionPageId'', field notionProject ''projectPageId''),
             (''repoName'', field repository ''name''),
             (''slackChannel'', field channel ''name''),
             (''executionTime'', tmpl [ret (Num executionTime), lit ''ms''])]) (\<lambda>_.
     obj [(''success'', ret (Bool True)),
          (''message'', tmpl [lit ''Project '', field args ''project_name'',
                              lit '' created successfully'']),
          (''executionTime'', tmpl [ret (Num executionTime), lit ''ms'']),
          (''details'',
             obj [(''notion'',
                     obj [(''pageId'', field notionProject ''projectPageId''),
                          (''url'', field notionProject ''projectPageUrl'')]),
                  (''github'',
                     obj [(''name'', field repository ''name''),
                          (''url'', field repository ''html_url'')]),
                  (''slack'',
                     obj [(''channel'', field channel ''name''),
                          (''url'', field channel ''webUrl'')]),
                  (''meeting'',
                     obj [(''id'', field meeting ''id''),
                          (''time'', field2 meeting ''start'' ''dateTime''),
                          (''url'', field meeting ''htmlLink'')])])]))"

text \<open>Lines 293-447: the body of the \<open>try\<close> block.\<close>

definition kickoff_try :: "env \<Rightarrow> jsval \<Rightarrow> jsval \<Rightarrow> jsval \<Rightarrow> int \<Rightarrow> jsval js" where
  "kickoff_try E args userContext requestId startTime =
     bnd (log ''info'' ''Starting project kickoff workflow''
            [(''requestId'', ret requestId),
             (''projectName'', field args ''project_name''),
             (''teamSize'', field2 args ''team_members'' ''length'')]) (\<lambda>_.
     bnd (call E notion ''createProjectPage''
            [obj [(''name'', field args ''project_name''),
                  (''databaseId'', ret (NOTION_PROJECTS_DB_ID E)),
                  (''teamMembers'', field args ''team_members''),
                  (''deadline'', field args ''deadline''),
                  (''description'', field args ''description'')],
             field userContext ''notionToken'', ret requestId]) (\<lambda>notionProject.
     bnd (kickoff_repoName args) (\<lambda>repoName.
     bnd (call E github ''createRepository''
            [obj [(''name'', ret repoName),
                  (''description'', field args ''description''),
                  (''private'', ret (Bool True)),
                  (''team'', field args ''team_members'')],
             field userContext ''githubToken'', ret requestId]) (\<lambda>repository.
     bnd (obj [(''name'', tmpl [lit ''proj-'', ret repoName]),
               (''topic'', tmpl [field args ''project_name'', lit '' - Project Discussion'']),
               (''purpose'', field args ''description''),
               (''private'', ret (Bool False)),
               (''members'', field args ''team_members'')]) (\<lambda>channelData.
     bnd (call E slack ''createReviewChannel''
            [ret channelData, field userContext ''slackToken'', ret requestId]) (\<lambda>channel.
     bnd (call E calendar ''findOptimalTime''
            [field args ''team_members'', field userContext ''calendarToken'', ret requestId,
             obj [(''duration'', ret (Num 60)),
                  (''timeMin'', newDate E 0),
                  (''timeMax'', newDate E (2 * 24 * 60 * 60 * 1000)),
                  (''workingHours'', ret (Obj [(''start'', Num 9), (''end'', Num 17)]))]])
         (\<lambda>kickoffTime.
     bnd (call E calendar ''createMeeting''
            [obj [(''title'', tmpl [field args ''project_name'', lit '' - Project Kickoff'']),
                  (''description'',
                     tmpl [lit ''Project kickoff meeting for '', field args ''project_name'',
                           lit ''\<newline>\<newline>Notion: '', field notionProject ''projectPageUrl'',
                           lit ''\<newline>GitHub: '', field repository ''html_url'',
                           lit ''\<newline>Slack: '', field channel ''webUrl'']),
                  (''startTime'', field kickoffTime ''start''),
                  (''endTime'', field kickoffTime ''end''),
                  (''attendees'', field args ''team_members''),
                  (''location'', field channel ''webUrl'')],
             field userContext ''calendarToken'', ret requestId]) (\<lambda>meeting.
     bnd (call E slack ''sendMessage''
            [field channel ''id'',
             kickoff_message args notionProject repository meeting,
             field userContext ''slackToken'', ret requestId]) (\<lambda>_.
     kickoff_result E args requestId startTime notionProject repository channel meeting)))))))))"

text \<open>Lines 449-463: the \<open>catch\<close> block; its log entry reads \<open>args.project_name\<close>.\<close>

definition kickoff_catch :: "env \<Rightarrow> jsval \<Rightarrow> jsval \<Rightarrow> int \<Rightarrow> jsval \<Rightarrow> jsval js" where
  "kickoff_catch E args requestId startTime error =
     bnd (now E) (\<lambda>t.
     let executionTime = t - startTime in
     bnd (log ''error'' ''Project kickoff workflow failed''
            [(''requestId'', ret requestId),
             (''error'', field error ''message''),
             (''projectName'', field args ''project_name'')]) (\<lambda>_.
     obj [(''success'', ret (Bool False)),
          (''message'', tmpl [lit ''Failed to create project: '', field error ''message'']),
          (''executionTime'', tmpl [ret (Num executionTime), lit ''ms''])]))"

definition createProjectKickoff :: "env \<Rightarrow> jsval \<Rightarrow> jsval \<Rightarrow> jsval \<Rightarrow> jsval js" where
  "createProjectKickoff E args userContext requestId =
     bnd (now E) (\<lambda>startTime.
     catch (kickoff_try E args userContext requestId startTime)
           (kickoff_catch E args requestId startTime))"

section \<open>handleIncidentResponse (lines 466-671)\<close>

text \<open>Lines 490-499: the tracking issue.\<close>

definition incident_issueData :: "env \<Rightarrow> jsval \<Rightarrow> jsval \<Rightarrow> jsval js" where
  "incident_issueData E args notionIncident =
     obj [(''title'', tmpl [lit ''[INCIDENT] '', field args ''title'']),
          (''body'',
             tmpl [lit ''## Incident Report\<newline>\<newline>'', field args ''description'',
                   lit ''\<newline>\<newline>'',
                   lit ''**Severity:** '', field args ''severity'', lit ''\<newline>'',
                   lit ''**Started:** '', bnd (now E) (\<lambda>t. ret (Str (toISOString E t))),
                   lit ''\<newline>\<newline>'',
                   lit ''### Links\<newline>'',
                   lit ''- [Incident Doc]('', field notionIncident ''url'', lit '')\<newline>'']),
          (''labels'', arr [lit ''incident'', tmpl [lit ''severity:'', field args ''severity'']]),
          (''assignees'',
             bnd (field args ''responders'') (\<lambda>rs. mapArr ''args.responders'' rs localPart))]"

text \<open>Lines 509-515: the coordination channel.\<close>

definition incident_channelData :: "env \<Rightarrow> jsval \<Rightarrow> jsval js" where
  "incident_channelData E args =
     obj [(''name'', tmpl [lit ''incident-'',
                           bnd (now E) (\<lambda>t. ret (Str (lastN 6 (show_int t))))]),
          (''topic'', tmpl [lit (emoji ''rotating_light''), lit '' Active Incident: '',
                            field args ''title'']),
          (''purpose'', tmpl [lit ''Incident coordination - '',
                              bnd (field args ''description'') (slice0 ''args.description'' 100),
                              lit ''...'']),
          (''private'', ret (Bool True)),
          (''members'',
             bnd (bnd (field args ''responders'') (spread ''args.responders'')) (\<lambda>rs.
             bnd (bnd (orElse (field args ''stakeholders'') (ret (Arr [])))
                      (spread ''(args.stakeholders || [])'')) (\<lambda>ss.
             ret (Arr (rs @ ss)))))]"

text \<open>Lines 524-586: the alert.\<close>

definition incident_alert :: "jsval \<Rightarrow> jsval \<Rightarrow> jsval \<Rightarrow> jsval js" where
  "incident_alert args notionIncident issue =
     obj [(''text'',
             tmpl [lit (emoji ''rotating_light''), lit '' *New Incident Reported*\<newline>\<newline>'',
                   lit ''*Title:* '', field args ''title'', lit ''\<newline>'',
                   lit ''*Severity:* '', field args ''severity'', lit ''\<newline>\<newline>'',
                   lit ''*Description:*\<newline>'', field args ''description'',
                   lit ''\<newline>\<newline>'',
                   lit ''*Resources:*\<newline>'',
                   lit (emoji ''bullet''), lit '' Incident Doc: '', field notionIncident ''url'',
                   lit ''\<newline>'',
                   lit (emoji ''bullet''), lit '' GitHub Issue: '', field issue ''html_url'']),
          (''blocks'',
             arr [obj [(''type'', lit ''header''),
                       (''text'', obj [(''type'', lit ''plain_text''),
                                       (''text'', lit (emoji ''rotating_light'' @
                                                       '' New Incident Reported''))])],
                  obj [(''type'', lit ''section''),
                       (''fields'',
                          arr [mrkdwn (tmpl [lit ''*Title:*\<newline>'', field args ''title'']),
                               mrkdwn (tmpl [lit ''*Severity:*\<newline>'',
                                             field args ''severity''])])],
                  obj [(''type'', lit ''section''),
                       (''text'', mrkdwn (tmpl [lit ''*Description:*\<newline>'',
                                                field args ''description'']))],
                  obj [(''type'', lit ''section''),
                       (''text'', mrkdwn (lit ''*Resources:*''))],
                  obj [(''type'', lit ''section''),
                       (''fields'',
                          arr [mrkdwn (tmpl [lit ''*'', lit (emoji ''memo''),
                                             lit '' Incident Doc*\<newline><'',
                                             field notionIncident ''url'',
                                             lit ''|View Documentation>'']),
                               mrkdwn (tmpl [lit ''*'', lit (emoji ''bar_chart''),
                                             lit '' GitHub Issue*\<newline><'',
                                             field issue ''html_url'', lit ''|#'',
                                             field issue ''number'', lit ''>''])])]])]"

text \<open>Lines 590-603: the emergency meeting.\<close>

definition incident_meetingSpec :: "env \<Rightarrow> jsval \<Rightarrow> jsval \<Rightarrow> jsval \<Rightarrow> jsval \<Rightarrow> jsval js" where
  "incident_meetingSpec E args notionIncident issue channel =
     obj [(''title'', tmpl [lit (emoji ''rotating_light''), lit '' Incident Response: '',
                            field args ''title'']),
          (''description'',
             tmpl [lit ''Emergency response meeting for ongoing incident\<newline>\<newline>'',
                   lit ''Notion: '', field notionIncident ''url'', lit ''\<newline>'',
                   lit ''GitHub: '', field issue ''html_url'', lit ''\<newline>'',
                   lit ''Slack: '', field channel ''webUrl'']),
          (''startTime'', newDate E 0),
          (''endTime'', newDate E (30 * 60 * 1000)),
          (''attendees'', field args ''responders''),
          (''location'', field channel ''webUrl''),
          (''conferenceData'',
             obj [(''createRequest'',
                     obj [(''requestId'',
                             tmpl [lit ''incident-'', bnd (now E) (\<lambda>t. ret (Num t))])])])]"

text \<open>Lines 606-624: the "join now" message.\<close>

definition incident_joinMessage :: "jsval \<Rightarrow> jsval js" where
  "incident_joinMessage meeting =
     obj [(''text'',
             tmpl [lit (emoji ''door''), lit '' *Emergency Response Meeting*\<newline>\<newline>'',
                   lit ''Join now: '', joinLink meeting]),
          (''blocks'',
             arr [obj [(''type'', lit ''section''),
                       (''text'',
                          mrkdwn (tmpl [lit (emoji ''door''),
                                        lit '' *Emergency Response Meeting Created*\<newline>\<newline>'',
                                        lit ''Please join immediately: '', joinLink meeting]))]])]"

text \<open>Line 589: the severity test, with strict equality.\<close>

definition is_severe :: "jsval \<Rightarrow> bool" where
  "is_severe severity = (severity = Str ''high'' \<or> severity = Str ''critical'')"

text \<open>Lines 589-625: the escalation.\<close>

definition incident_escalate ::
  "env \<Rightarrow> jsval \<Rightarrow> jsval \<Rightarrow> jsval \<Rightarrow> jsval \<Rightarrow> jsval \<Rightarrow> jsval \<Rightarrow> unit js" where
  "incident_escalate E args userContext requestId notionIncident issue channel =
     bnd (field args ''severity'') (\<lambda>severity.
     if is_severe severity then
       bnd (call E calendar ''createMeeting''
              [incident_meetingSpec E args notionIncident issue channel,
               field userContext ''calendarToken'', ret requestId]) (\<lambda>meeting.
       bnd (call E slack ''sendMessage''
              [field channel ''id'', incident_joinMessage meeting,
               field userContext ''slackToken'', ret requestId]) (\<lambda>_.
       ret ()))
     else ret ())"

text \<open>Lines 627-655: the final log entry and the success envelope.\<close>

definition incident_result ::
  "env \<Rightarrow> jsval \<Rightarrow> jsval \<Rightarrow> int \<Rightarrow> jsval \<Rightarrow> jsval \<Rightarrow> jsval \<Rightarrow> jsval js" where
  "incident_result E args requestId startTime notionIncident issue channel =
     bnd (now E) (\<lambda>t.
     let executionTime = t - startTime in
     bnd (log ''info'' ''Incident response workflow completed''
            [(''requestId'', ret requestId),
             (''incidentId'', field notionIncident ''id''),
             (''issueNumber'', field issue ''number''),
             (''slackChannel'', field channel ''name''),
             (''executionTime'', tmpl [ret (Num executionTime), lit ''ms''])]) (\<lambda>_.
     obj [(''success'', ret (Bool True)),
          (''message'', tmpl [lit ''Incident response initiated: '', field args ''title'']),
          (''executionTime'', tmpl [ret (Num executionTime), lit ''ms'']),
          (''details'',
             obj [(''notion'',
                     obj [(''documentId'', field notionIncident ''id''),
                          (''url'', field notionIncident ''url'')]),
                  (''github'',
                     obj [(''issueNumber'', field issue ''number''),
                          (''url'', field issue ''html_url'')]),
                  (''slack'',
                     obj [(''channel'', field channel ''name''),
                          (''url'', field channel ''webUrl'')])])]))"

text \<open>Lines 469-655: the body of the \<open>try\<close> block.\<close>

definition incident_try :: "env \<Rightarrow> jsval \<Rightarrow> jsval \<Rightarrow> jsval \<Rightarrow> int \<Rightarrow> jsval js" where
  "incident_try E args userContext requestId startTime =
     bnd (log ''info'' ''Starting incident response workflow''
            [(''requestId'', ret requestId),
             (''severity'', field args ''severity''),
             (''description'', field args ''description'')]) (\<lambda>_.
     bnd (call E notion ''createDocument''
            [ret (NOTION_INCIDENTS_DB_ID E),
             obj [(''title'', tmpl [lit ''Incident: '', field args ''title'']),
                  (''type'', lit ''Incident Report''),
                  (''content'', field args ''description''),
                  (''owners'', field args ''responders'')],
             field userContext ''notionToken'', ret requestId]) (\<lambda>notionIncident.
     bnd (incident_issueData E args notionIncident) (\<lambda>issueData.
     bnd (call E github ''createIssue''
            [field args ''repository'', ret issueData, field userContext ''githubToken'',
             ret requestId]) (\<lambda>issue.
     bnd (incident_channelData E args) (\<lambda>channelData.
     bnd (call E slack ''createReviewChannel''
            [ret channelData, field userContext ''slackToken'', ret requestId]) (\<lambda>channel.
     bnd (call E slack ''sendMessage''
            [field channel ''id'', incident_alert args notionIncident issue,
             field userContext ''slackToken'', ret requestId]) (\<lambda>_.
     bnd (incident_escalate E args userContext requestId notionIncident issue channel) (\<lambda>_.
     incident_result E args requestId startTime notionIncident issue channel))))))))"

text \<open>Lines 657-670: the \<open>catch\<close> block.\<close>

definition incident_catch :: "env \<Rightarrow> jsval \<Rightarrow> int \<Rightarrow> jsval \<Rightarrow> jsval js" where
  "incident_catch E requestId startTime error =
     bnd (now E) (\<lambda>t.
     let executionTime = t - startTime in
     bnd (log ''error'' ''Incident response workflow failed''
            [(''requestId'', ret requestId), (''error'', field error ''message'')]) (\<lambda>_.
     obj [(''success'', ret (Bool False)),
          (''message'', tmpl [lit ''Failed to initiate incident response: '',
                              field error ''message'']),
          (''executionTime'', tmpl [ret (Num executionTime), lit ''ms''])]))"

definition handleIncidentResponse :: "env \<Rightarrow> jsval \<Rightarrow> jsval \<Rightarrow> jsval \<Rightarrow> jsval js" where
  "handleIncidentResponse E args userContext requestId =
     bnd (now E) (\<lambda>startTime.
     catch (incident_try E args userContext requestId startTime)
           (incident_catch E requestId startTime))"

section \<open>initialize (lines 23-33)\<close>

text \<open>The one method that assigns a field of the orchestrator after construction.\<close>

definition set_initialized :: "unit js" where
  "set_initialized = (\<lambda>s. (Inr (), s\<lparr>self := (self s)\<lparr>isInitialized := True\<rparr>\<rparr>))"

definition initialize :: "env \<Rightarrow> unit js" where
  "initialize E =
     bnd (logger ''info'' ''Initializing WorkflowOrchestrator...'' Undefined) (\<lambda>_.
     bnd (call E github ''initialize'' []) (\<lambda>_.
     bnd (call E slack ''initialize'' []) (\<lambda>_.
     bnd (call E notion ''initialize'' []) (\<lambda>_.
     bnd (call E calendar ''initialize'' []) (\<lambda>_.
     bnd set_initialized (\<lambda>_.
     logger ''info'' ''WorkflowOrchestrator initialized successfully'' Undefined))))))"
section \<open>Reading a run\<close>

text \<open>
  A procedure is run from a world \<open>s\<close> and ends in a world \<open>s'\<close>; what it did is the list
  of events it appended to the trace. \<open>Inl\<close> is a promise that rejects: the error escaped
  to the caller.
\<close>

definition new_events :: "world \<Rightarrow> world \<Rightarrow> event list" where
  "new_events s s' = drop (length (trace s)) (trace s')"

text \<open>The values collaborator calls rejected with (or threw), in order.\<close>

fun failure_of :: "event \<Rightarrow> jsval list" where
  "failure_of (Call c m as (Rejects e)) = [e]"
| "failure_of (Call c m as (Throws e)) = [e]"
| "failure_of _ = []"

definition failures :: "event list \<Rightarrow> jsval list" where
  "failures evs = concat (map failure_of evs)"

text \<open>The clock readings of a run, in order.\<close>

fun reading_of :: "event \<Rightarrow> int list" where
  "reading_of (Now t) = [t]"
| "reading_of _ = []"

definition readings :: "event list \<Rightarrow> int list" where
  "readings evs = concat (map reading_of evs)"

text \<open>\<open>v.k\<close> where it cannot throw.\<close>

definition propOf :: "jsval \<Rightarrow> string \<Rightarrow> jsval" where
  "propOf v k = (case getP v k of Inr x \<Rightarrow> x | Inl e \<Rightarrow> Undefined)"

fun is_str :: "jsval \<Rightarrow> bool" where
  "is_str (Str s) = True"
| "is_str _ = False"

fun keys :: "jsval \<Rightarrow> string list" where
  "keys (Obj kvs) = map fst kvs"
| "keys _ = []"


definition failure_envelope :: "string \<Rightarrow> int \<Rightarrow> jsval" where
  "failure_envelope msg elapsed =
     Obj [(''success'', Bool False), (''message'', Str msg),
          (''executionTime'', Str (show_int elapsed @ ''ms''))]"


subsection \<open>Assumptions on the environment\<close>

text \<open>Collaborators that reject with a value, as an \<open>Error\<close> is, never with null or undefined.\<close>

definition rejects_with_values :: "env \<Rightarrow> bool" where
  "rejects_with_values E =
     (\<forall>h c m as e. respond E h c m as = Rejects e \<or> respond E h c m as = Throws e
        \<longrightarrow> \<not> nullish e)"


text \<open>
  What the workflows need of a value a collaborator resolves with (section 6 of the
  specification): a pull request has a string title, an author, reviewers, URLs and diff
  statistics; a meeting has a start; every other result is an object. An email is a
  string or missing.
\<close>

definition email_or_missing :: "jsval \<Rightarrow> bool" where
  "email_or_missing e = (is_str e \<or> \<not> truthy e)"

definition pull_request_ok :: "jsval \<Rightarrow> bool" where
  "pull_request_ok v =
     (\<not> nullish v \<and> is_str (propOf v ''title'')
      \<and> \<not> nullish (propOf v ''author'')
      \<and> email_or_missing (propOf (propOf v ''author'') ''email'')
      \<and> (case propOf v ''requestedReviewers'' of
            Arr rs \<Rightarrow> list_all (\<lambda>r. \<not> nullish r \<and> email_or_missing (propOf r ''email'')) rs
          | _ \<Rightarrow> False)
      \<and> \<not> nullish (propOf v ''urls'')
      \<and> \<not> nullish (propOf v ''stats''))"

definition conforms :: "string \<Rightarrow> jsval \<Rightarrow> bool" where
  "conforms meth v =
     (if meth = ''getPullRequest'' then pull_request_ok v
      else if meth = ''createMeeting'' then \<not> nullish v \<and> \<not> nullish (propOf v ''start'')
      else if meth = ''sendMessage'' then True
      else \<not> nullish v)"

definition never_fails :: "env \<Rightarrow> bool" where
  "never_fails E = (\<forall>h c m as. \<exists>v. respond E h c m as = Resolves v \<and> conforms m v)"

text \<open>Well-formed requests.\<close>

definition review_request_ok :: "jsval \<Rightarrow> bool" where
  "review_request_ok args =
     (\<not> nullish args
      \<and> (case propOf args ''additional_attendees'' of
            Arr xs \<Rightarrow> list_all email_or_missing xs
          | x \<Rightarrow> \<not> truthy x))"

definition kickoff_request_ok :: "jsval \<Rightarrow> bool" where
  "kickoff_request_ok args =
     (\<not> nullish args \<and> is_str (propOf args ''project_name'')
      \<and> \<not> nullish (propOf args ''team_members''))"

definition incident_request_ok :: "jsval \<Rightarrow> bool" where
  "incident_request_ok args =
     (\<not> nullish args \<and> is_str (propOf args ''description'')
      \<and> (case propOf args ''responders'' of Arr rs \<Rightarrow> list_all is_str rs | _ \<Rightarrow> False)
      \<and> (case propOf args ''stakeholders'' of Arr xs \<Rightarrow> True | x \<Rightarrow> \<not> truthy x))"

subsection \<open>The slug rule of the specification\<close>

text \<open>
  Section 4.3 in its own words: lowercase; any character outside \<open>[a-z0-9-]\<close> replaced
  with \<open>-\<close>; truncated to 80 characters.
\<close>

definition spec_slug :: "string \<Rightarrow> string" where
  "spec_slug s = take 80 (replace_non_slug (toLowerCase s))"

text \<open>The n-th argument of a call; a missing argument is undefined.\<close>

definition argument :: "nat \<Rightarrow> jsval list \<Rightarrow> jsval" where
  "argument n as = (if n < length as then as ! n else Undefined)"

text \<open>The names a run asked the source-control collaborator to create repositories with.\<close>

fun repo_name_of :: "event \<Rightarrow> jsval list" where
  "repo_name_of (Call c m as r) =
     (if m = ''createRepository'' then [propOf (argument 0 as) ''name''] else [])"
| "repo_name_of _ = []"

definition repo_names :: "event list \<Rightarrow> jsval list" where
  "repo_names evs = concat (map repo_name_of evs)"

text \<open>The meetings a run asked the scheduling collaborator to create.\<close>

fun meeting_of :: "event \<Rightarrow> jsval list" where
  "meeting_of (Call c m as r) = (if m = ''createMeeting'' then [argument 0 as] else [])"
| "meeting_of _ = []"

definition meetings :: "event list \<Rightarrow> jsval list" where
  "meetings evs = concat (map meeting_of evs)"

text \<open>
  The emergency meeting of the incident workflow: it starts at a reading of the clock,
  ends 30 minutes after the next reading, and invites the responders.
\<close>

definition escalation_meeting :: "env \<Rightarrow> jsval \<Rightarrow> jsval \<Rightarrow> bool" where
  "escalation_meeting E args spec =
     (\<exists>h. propOf spec ''startTime'' = DateV (clock E h)
          \<and> propOf spec ''endTime'' = DateV (clock E (h @ [Now (clock E h)]) + 30 * 60 * 1000)
          \<and> propOf spec ''attendees'' = propOf args ''responders'')"

subsection \<open>Sample inputs\<close>

definition demo_respond :: "event list \<Rightarrow> nat \<Rightarrow> string \<Rightarrow> jsval list \<Rightarrow> outcome" where
  "demo_respond h c m as =
     (if m = ''getPullRequest'' then Resolves (Obj [
         (''title'', Str ''Fix Bug #1''),
         (''author'', Obj [(''name'', Str ''Bea''), (''email'', Str ''b@x.com'')]),
         (''requestedReviewers'',
            Arr [Obj [(''name'', Str ''Al''), (''email'', Str ''a@x.com'')],
                 Obj [(''name'', Str ''Cy'')]]),
         (''urls'', Obj [(''html'', Str ''http://gh/pr/12'')]),
         (''stats'', Obj [(''changedFiles'', Num 2), (''additions'', Num 10),
                          (''deletions'', Num 3)])])
      else if m = ''getIssue'' then Resolves (Obj [(''html_url'', Str ''http://gh/issue/5'')])
      else if m = ''findOptimalTime'' then
        Resolves (Obj [(''start'', Str ''10:00''), (''end'', Str ''10:30''),
                       (''formatted'', Str ''Mon 10:00'')])
      else if m = ''createReviewChannel'' then
        Resolves (Obj [(''id'', Str ''C1''), (''name'', Str ''chan''),
                       (''webUrl'', Str ''http://slack/C1'')])
      else if m = ''createMeeting'' then
        Resolves (Obj [(''id'', Str ''M1''), (''htmlLink'', Str ''http://cal/M1''),
                       (''summary'', Str ''Kickoff''),
                       (''start'', Obj [(''dateTime'', Str ''10:00'')])])
      else if m = ''createDocument'' then
        Resolves (Obj [(''id'', Str ''D1''), (''url'', Str ''http://notion/D1'')])
      else if m = ''createProjectPage'' then
        Resolves (Obj [(''projectPageId'', Str ''P1''),
                       (''projectPageUrl'', Str ''http://notion/P1'')])
      else if m = ''createRepository'' then
        Resolves (Obj [(''name'', Str ''repo''), (''html_url'', Str ''http://gh/repo'')])
      else if m = ''createIssue'' then
        Resolves (Obj [(''number'', Num 7), (''html_url'', Str ''http://gh/issue/7'')])
      else Resolves (Obj [(''ok'', Bool True)]))"

definition demo_env :: env where
  "demo_env =
     \<lparr>respond = demo_respond, clock = (\<lambda>h. 1000 + int (length h)),
      issue_settles_first = (\<lambda>h. False), toISOString = (\<lambda>t. ''T'' @ show_int t),
      NOTION_PROJECTS_DB_ID = Str ''db-projects'', NOTION_INCIDENTS_DB_ID = Str ''db-incidents''\<rparr>"

text \<open>The same collaborators, but the scheduling collaborator finds no slot and rejects with \<open>e\<close>.\<close>

definition no_slot_env :: "jsval \<Rightarrow> env" where
  "no_slot_env e =
     demo_env\<lparr>respond := (\<lambda>h c m as. if m = ''findOptimalTime'' then Rejects e
                                       else demo_respond h c m as)\<rparr>"

text \<open>A wall clock that is set back by an hour after its first reading.\<close>

definition backwards_env :: env where
  "backwards_env = demo_env\<lparr>clock := (\<lambda>h. if h = [] then 3600000 else 0)\<rparr>"

definition demo_world :: world where
  "demo_world =
     \<lparr>trace = [],
      self = \<lparr>github = 1, slack = 2, notion = 3, calendar = 4, automation = 5,
              config = Obj [], isInitialized = True\<rparr>\<rparr>"

definition demo_user :: jsval where
  "demo_user =
     Obj [(''githubToken'', Str ''gh-token''), (''slackToken'', Str ''sl-token''),
          (''notionToken'', Str ''no-token''), (''calendarToken'', Str ''ca-token'')]"

definition demo_review :: jsval where
  "demo_review =
     Obj [(''repository'', Str ''acme/app''), (''pr_number'', Num 12), (''issue_number'', Num 5),
          (''additional_attendees'', Arr [Str ''c@x.com''])]"

definition demo_kickoff :: jsval where
  "demo_kickoff =
     Obj [(''project_name'', Str ''Apollo 11''), (''team_members'', Arr [Str ''a@x.com'']),
          (''deadline'', Str ''2030-01-01''), (''description'', Str ''Moon'')]"

definition demo_incident :: "string \<Rightarrow> jsval" where
  "demo_incident severity =
     Obj [(''title'', Str ''API down''), (''severity'', Str severity),
          (''description'', Str ''500s everywhere''), (''repository'', Str ''acme/app''),
          (''responders'', Arr [Str ''a@x.com'', Str ''b@x.com''])]"

subsection \<open>The public surface\<close>

text \<open>The three workflow procedures, and the text each failure message starts with.\<close>

datatype workflow = ScheduleCodeReview | CreateProjectKickoff | HandleIncidentResponse

fun run :: "env \<Rightarrow> workflow \<Rightarrow> jsval \<Rightarrow> jsval \<Rightarrow> jsval \<Rightarrow> jsval js" where
  "run E ScheduleCodeReview = scheduleCodeReview E"
| "run E CreateProjectKickoff = createProjectKickoff E"
| "run E HandleIncidentResponse = handleIncidentResponse E"


fun demo_request :: "workflow \<Rightarrow> jsval" where
  "demo_request ScheduleCodeReview = demo_review"
| "demo_request CreateProjectKickoff = demo_kickoff"
| "demo_request HandleIncidentResponse = demo_incident ''critical''"

fun request_ok :: "workflow \<Rightarrow> jsval \<Rightarrow> bool" where
  "request_ok ScheduleCodeReview = review_request_ok"
| "request_ok CreateProjectKickoff = kickoff_request_ok"
| "request_ok HandleIncidentResponse = incident_request_ok"

text \<open>The keys of \<open>details\<close> in each success envelope (lines 256-273, 428-446, 641-654).\<close>

fun detail_keys :: "workflow \<Rightarrow> string list" where
  "detail_keys ScheduleCodeReview =
     [''repository'', ''pr_number'', ''issue_number'', ''slack_channel'', ''slack_url'',
      ''github_pr'', ''github_issue'', ''meeting'', ''notion'']"
| "detail_keys CreateProjectKickoff = [''notion'', ''github'', ''slack'', ''meeting'']"
| "detail_keys HandleIncidentResponse = [''notion'', ''github'', ''slack'']"

subsection \<open>Invariants of computations\<close>

text \<open>
  \<open>emits m P\<close>: whatever \<open>m\<close> returns or throws, it leaves the orchestrator as it was and
  only appends events, each of which satisfies \<open>P\<close>.
\<close>

definition emits :: "'a js \<Rightarrow> (event \<Rightarrow> bool) \<Rightarrow> bool" where
  "emits m P = (\<forall>s r s'. m s = (r, s') \<longrightarrow>
     self s' = self s \<and> (\<exists>evs. trace s' = trace s @ evs \<and> list_all P evs))"


text \<open>
  \<open>stamped E h0 h t\<close>: in the history \<open>h\<close>, which extends \<open>h0\<close>, the last clock reading
  taken after \<open>h0\<close> is \<open>t\<close>.
\<close>

definition stamped :: "env \<Rightarrow> event list \<Rightarrow> event list \<Rightarrow> int \<Rightarrow> bool" where
  "stamped E h0 h t =
     (\<exists>mid post. h = h0 @ mid @ Now t # post \<and> t = clock E (h0 @ mid) \<and> readings post = [])"

definition returns_stamped :: "env \<Rightarrow> jsval js \<Rightarrow> (int \<Rightarrow> jsval \<Rightarrow> bool) \<Rightarrow> bool" where
  "returns_stamped E m Q =
     (\<forall>s v s'. m s = (Inr v, s') \<longrightarrow> (\<exists>t. stamped E (trace s) (trace s') t \<and> Q t v))"

text \<open>\<open>succeeds m Q\<close>: from every world \<open>m\<close> returns, with a value that satisfies \<open>Q\<close>.\<close>

definition succeeds :: "'a js \<Rightarrow> ('a \<Rightarrow> bool) \<Rightarrow> bool" where
  "succeeds m Q = (\<forall>s. \<exists>x s'. m s = (Inr x, s') \<and> Q x)"

text \<open>\<open>yields m R\<close>: when \<open>m\<close> returns, the events it appended satisfy \<open>R\<close>.\<close>

definition yields :: "'a js \<Rightarrow> (event list \<Rightarrow> bool) \<Rightarrow> bool" where
  "yields m R = (\<forall>s x s'. m s = (Inr x, s') \<longrightarrow> (\<exists>evs. trace s' = trace s @ evs \<and> R evs))"

text \<open>The methods a run called, in order.\<close>

fun method_of :: "event \<Rightarrow> string list" where
  "method_of (Call c m as r) = [m]"
| "method_of _ = []"

definition methods :: "event list \<Rightarrow> string list" where
  "methods evs = concat (map method_of evs)"

text \<open>The example of section 8: reviewers' emails \<open>a@x.com\<close> and undefined, author \<open>b@x.com\<close>, one extra attendee.\<close>

definition example_pr :: jsval where
  "example_pr =
     Obj [(''title'', Str ''Fix Bug #1''),
          (''requestedReviewers'',
             Arr [Obj [(''name'', Str ''Al''), (''email'', Str ''a@x.com'')],
                  Obj [(''name'', Str ''Cy''), (''email'', Undefined)]]),
          (''author'', Obj [(''name'', Str ''Bea''), (''email'', Str ''b@x.com'')])]"

text \<open>A project whose name has 81 characters.\<close>

definition long_name :: string where
  "long_name = replicate 81 (CHR ''a'')"

definition long_kickoff :: jsval where
  "long_kickoff =
     Obj [(''project_name'', Str long_name), (''team_members'', Arr [Str ''a@x.com'']),
          (''deadline'', Str ''2030-01-01''), (''description'', Str ''Moon'')]"



section \<open>Properties\<close>
subsection \<open>Frame rules\<close>

lemma emitsD:
  "emits m P \<Longrightarrow> m s = (r, s') \<Longrightarrow> self s' = self s \<and> (\<exists>evs. trace s' = trace s @ evs \<and> list_all P evs)"
  by (simp add: emits_def)

lemma emitsI:
  "(\<And>s r s'. m s = (r, s') \<Longrightarrow> self s' = self s \<and> (\<exists>evs. trace s' = trace s @ evs \<and> list_all P evs)) \<Longrightarrow> emits m P"
  by (simp add: emits_def)

lemma emits_ret: "emits (ret x) P"
  by (simp add: emits_def ret_def)

lemma emits_throw: "emits (throw e) P"
  by (simp add: emits_def throw_def)

lemma emits_lift: "emits (lift r) P"
  by (simp add: emits_def lift_def)

lemma emits_field: "emits (field v k) P"
  by (simp add: field_def emits_lift)

lemma emits_lit: "emits (lit x) P"
  by (simp add: lit_def emits_ret)

lemma emits_bnd:
  assumes m: "emits m P" and f: "\<And>x. emits (f x) P"
  shows "emits (bnd m f) P"
proof (rule emitsI)
  fix s r s'
  assume run: "bnd m f s = (r, s')"
  obtain r1 s1 where ms: "m s = (r1, s1)" by (cases "m s")
  from emitsD[OF m ms] obtain evs1 where
    s1: "self s1 = self s" "trace s1 = trace s @ evs1" "list_all P evs1" by blast
  show "self s' = self s \<and> (\<exists>evs. trace s' = trace s @ evs \<and> list_all P evs)"
  proof (cases r1)
    case (Inl e)
    with run ms have "s' = s1" by (simp add: bnd_def)
    with s1 show ?thesis by auto
  next
    case (Inr x)
    with run ms have "f x s1 = (r, s')" by (simp add: bnd_def)
    from emitsD[OF f this] obtain evs2 where
      "self s' = self s1" "trace s' = trace s1 @ evs2" "list_all P evs2" by blast
    with s1 show ?thesis by auto
  qed
qed

lemma emits_catch:
  assumes m: "emits m P" and h: "\<And>e. emits (h e) P"
  shows "emits (catch m h) P"
proof (rule emitsI)
  fix s r s'
  assume run: "catch m h s = (r, s')"
  obtain r1 s1 where ms: "m s = (r1, s1)" by (cases "m s")
  from emitsD[OF m ms] obtain evs1 where
    s1: "self s1 = self s" "trace s1 = trace s @ evs1" "list_all P evs1" by blast
  show "self s' = self s \<and> (\<exists>evs. trace s' = trace s @ evs \<and> list_all P evs)"
  proof (cases r1)
    case (Inr x)
    with run ms have "s' = s1" by (simp add: catch_def)
    with s1 show ?thesis by auto
  next
    case (Inl e)
    with run ms have "h e s1 = (r, s')" by (simp add: catch_def)
    from emitsD[OF h this] obtain evs2 where
      "self s' = self s1" "trace s' = trace s1 @ evs2" "list_all P evs2" by blast
    with s1 show ?thesis by auto
  qed
qed

lemma emits_sequence: "list_all (\<lambda>m. emits m P) ms \<Longrightarrow> emits (sequence ms) P"
  by (induction ms) (auto intro!: emits_ret emits_bnd)

lemma emits_tmpl: "list_all (\<lambda>m. emits m P) parts \<Longrightarrow> emits (tmpl parts) P"
  by (auto simp: tmpl_def intro!: emits_ret emits_bnd emits_sequence)

lemma emits_tmplS: "list_all (\<lambda>m. emits m P) parts \<Longrightarrow> emits (tmplS parts) P"
  by (auto simp: tmplS_def intro!: emits_ret emits_bnd emits_sequence)

lemma emits_arr: "list_all (\<lambda>m. emits m P) ms \<Longrightarrow> emits (arr ms) P"
  by (auto simp: arr_def intro!: emits_ret emits_bnd emits_sequence)

lemma emits_obj: "list_all (\<lambda>km. emits (snd km) P) kms \<Longrightarrow> emits (obj kms) P"
  by (auto simp: obj_def list_all_iff intro!: emits_ret emits_bnd emits_sequence)

lemma emits_field2: "emits (field2 v k1 k2) P"
  by (auto simp: field2_def intro!: emits_bnd emits_field)

lemma emits_orElse: "emits m1 P \<Longrightarrow> emits m2 P \<Longrightarrow> emits (orElse m1 m2) P"
  by (auto simp: orElse_def intro!: emits_bnd emits_ret)

lemma emits_spread: "emits (spread what v) P"
  by (cases v) (auto intro!: emits_ret emits_throw)

lemma emits_mapArr: "(\<And>x. emits (f x) P) \<Longrightarrow> emits (mapArr what v f) P"
  by (cases v) (auto simp: mapArr_def list_all_iff intro!: emits_bnd emits_field emits_ret emits_throw emits_sequence)

lemma emits_joinArr: "emits (joinArr sep v) P"
  by (cases v) (auto simp: joinArr_def intro!: emits_ret emits_throw)

lemma emits_localPart: "emits (localPart v) P"
  by (cases v) (auto simp: localPart_def intro!: emits_bnd emits_field emits_ret emits_throw)

lemma emits_slice0: "emits (slice0 what n v) P"
  by (cases v) (auto simp: slice0_def intro!: emits_bnd emits_field emits_ret emits_throw)

lemma emits_lowerReplace: "emits (lowerReplace what v) P"
  by (cases v) (auto simp: lowerReplace_def intro!: emits_bnd emits_field emits_ret emits_throw)

lemma emits_now: "(\<And>t. P (Now t)) \<Longrightarrow> emits (now E) P"
  by (auto simp: emits_def now_def Let_def)

lemma emits_newDate: "(\<And>t. P (Now t)) \<Longrightarrow> emits (newDate E k) P"
  by (auto simp: newDate_def intro!: emits_bnd emits_now emits_ret)

lemma emits_logger: "P (Log level msg meta) \<Longrightarrow> emits (logger level msg meta) P"
  by (auto simp: emits_def logger_def emit_def)

lemma emits_log:
  "list_all (\<lambda>km. emits (snd km) P) kms \<Longrightarrow> (\<And>meta. P (Log level msg meta)) \<Longrightarrow> emits (log level msg kms) P"
  by (auto simp: log_def intro!: emits_bnd emits_obj emits_logger)

lemma emits_invoke:
  "(\<And>c h. P (Call c meth args (respond E h c meth args))) \<Longrightarrow> emits (invoke E conn meth args) P"
  by (auto simp: emits_def invoke_def Let_def)

lemma emits_await: "emits (await p) P"
  by (cases p) (auto intro!: emits_ret emits_throw)

lemma emits_issued: "emits (issued p) P"
  by (cases p) (auto intro!: emits_ret emits_throw)

lemma emits_call:
  "list_all (\<lambda>m. emits m P) argms \<Longrightarrow> (\<And>c h args. P (Call c meth args (respond E h c meth args)))
   \<Longrightarrow> emits (call E conn meth argms) P"
  by (auto simp: call_def intro!: emits_bnd emits_sequence emits_invoke emits_await)

lemma emits_bnd_val:
  assumes m: "emits m P" and f: "\<And>x s s'. m s = (Inr x, s') \<Longrightarrow> emits (f x) P"
  shows "emits (bnd m f) P"
proof (rule emitsI)
  fix s r s'
  assume run: "bnd m f s = (r, s')"
  obtain r1 s1 where ms: "m s = (r1, s1)" by (cases "m s")
  from emitsD[OF m ms] obtain evs1 where
    s1: "self s1 = self s" "trace s1 = trace s @ evs1" "list_all P evs1" by blast
  show "self s' = self s \<and> (\<exists>evs. trace s' = trace s @ evs \<and> list_all P evs)"
  proof (cases r1)
    case (Inl e)
    with run ms have "s' = s1" by (simp add: bnd_def)
    with s1 show ?thesis by auto
  next
    case (Inr x)
    with run ms have "f x s1 = (r, s')" by (simp add: bnd_def)
    from emitsD[OF f this] ms Inr obtain evs2 where
      "self s' = self s1" "trace s' = trace s1 @ evs2" "list_all P evs2" by blast
    with s1 show ?thesis by auto
  qed
qed

lemma emits_call_val:
  "list_all (\<lambda>m. emits m P) argms
   \<Longrightarrow> (\<And>c h args s s'. sequence argms s = (Inr args, s') \<Longrightarrow> P (Call c meth args (respond E h c meth args)))
   \<Longrightarrow> emits (call E conn meth argms) P"
  unfolding call_def
  by (rule emits_bnd_val) (auto intro!: emits_bnd emits_sequence emits_invoke emits_await)

lemma emits_promise_all2: "emits (promise_all2 E p1 p2) P"
  by (cases p1; cases p2) (auto simp: emits_def throw_def ret_def)

lemmas emits_intros =
  emits_ret emits_throw emits_lift emits_field emits_lit emits_bnd emits_catch emits_tmpl emits_tmplS
  emits_arr emits_obj emits_field2 emits_orElse emits_spread emits_mapArr emits_joinArr
  emits_localPart emits_slice0 emits_lowerReplace emits_now emits_newDate emits_logger emits_log
  emits_invoke emits_await emits_issued emits_call emits_promise_all2

lemma emits_mrkdwn: "emits m P \<Longrightarrow> emits (mrkdwn m) P"
  by (auto simp: mrkdwn_def intro!: emits_intros)

lemma emits_joinLink: "emits (joinLink m) P"
  by (auto simp: joinLink_def intro!: emits_intros)


lemmas emits_all = emits_intros emits_mrkdwn emits_joinLink

lemma frame_review_try: "emits (review_try E args uc rid start) (\<lambda>_. True)"
  unfolding review_try_def review_fetch_def review_attendees_def review_findTime_def review_channelData_def
    review_channelName_def review_meetingSpec_def review_notesDoc_def review_message_def review_result_def
  by (auto intro!: emits_all emits_sequence simp: Let_def)

lemma frame_review_catch: "emits (review_catch E rid start e) (\<lambda>_. True)"
  unfolding review_catch_def
  by (auto intro!: emits_all simp: Let_def)

lemma frame_scheduleCodeReview: "emits (scheduleCodeReview E args uc rid) (\<lambda>_. True)"
  unfolding scheduleCodeReview_def
  by (intro emits_bnd emits_catch emits_now frame_review_try frame_review_catch) simp

lemma frame_kickoff_try: "emits (kickoff_try E args uc rid start) (\<lambda>_. True)"
  unfolding kickoff_try_def kickoff_repoName_def kickoff_message_def kickoff_result_def
  by (auto intro!: emits_all simp: Let_def)

lemma frame_kickoff_catch: "emits (kickoff_catch E args rid start e) (\<lambda>_. True)"
  unfolding kickoff_catch_def
  by (auto intro!: emits_all simp: Let_def)

lemma frame_createProjectKickoff: "emits (createProjectKickoff E args uc rid) (\<lambda>_. True)"
  unfolding createProjectKickoff_def
  by (intro emits_bnd emits_catch emits_now frame_kickoff_try frame_kickoff_catch) simp

lemma frame_incident_try: "emits (incident_try E args uc rid start) (\<lambda>_. True)"
  unfolding incident_try_def incident_issueData_def incident_channelData_def incident_alert_def
    incident_escalate_def incident_meetingSpec_def incident_joinMessage_def incident_result_def
  by (auto intro!: emits_all simp: Let_def)

lemma frame_incident_catch: "emits (incident_catch E rid start e) (\<lambda>_. True)"
  unfolding incident_catch_def
  by (auto intro!: emits_all simp: Let_def)

lemma frame_handleIncidentResponse: "emits (handleIncidentResponse E args uc rid) (\<lambda>_. True)"
  unfolding handleIncidentResponse_def
  by (intro emits_bnd emits_catch emits_now frame_incident_try frame_incident_catch) simp

subsection \<open>Evaluating expressions\<close>

lemma getP_ok: "\<not> nullish v \<Longrightarrow> getP v k = Inr (propOf v k)"
  by (cases v) (simp_all add: propOf_def)

lemma getP_nullish: "nullish v \<Longrightarrow> \<exists>msg. getP v k = Inl (typeError msg)"
  by (cases v) (simp_all, blast+)

lemma propOf_Inr: "getP v k = Inr x \<Longrightarrow> propOf v k = x"
  by (simp add: propOf_def)

lemma getP_Inr_defined: "getP v k = Inr x \<Longrightarrow> \<not> nullish v"
  by (cases v) simp_all

lemma bnd_ret: "bnd (ret x) f = f x"
  by (simp add: bnd_def ret_def)

lemma bnd_throw: "bnd (throw e) f = throw e"
  by (simp add: bnd_def throw_def)

lemma field_Inr: "getP v k = Inr x \<Longrightarrow> field v k = ret x"
  by (simp add: field_def lift_def ret_def)

lemma field_ok: "\<not> nullish v \<Longrightarrow> field v k = ret (propOf v k)"
  by (simp add: field_Inr getP_ok)

lemma field_nullish: "nullish v \<Longrightarrow> \<exists>msg. field v k = throw (typeError msg)"
  using getP_nullish[of v k] by (auto simp: field_def lift_def throw_def)

lemma sequence_ret: "sequence (ret x # ms) = bnd (sequence ms) (\<lambda>xs. ret (x # xs))"
  by (simp add: bnd_ret)

lemma sequence_fields:
  "list_all (\<lambda>r. \<not> nullish r) rs \<Longrightarrow> sequence (map (\<lambda>r. field r k) rs) = ret (map (\<lambda>r. propOf r k) rs)"
  by (induction rs) (simp_all add: field_ok bnd_ret)

lemma mapArr_fields:
  "list_all (\<lambda>r. \<not> nullish r) rs \<Longrightarrow> mapArr what (Arr rs) (\<lambda>r. field r k) = ret (Arr (map (\<lambda>r. propOf r k) rs))"
  by (simp add: mapArr_def field_ok bnd_ret sequence_fields)

lemma review_attendees_eval:
  assumes rs: "getP prDetails ''requestedReviewers'' = Inr (Arr reviewers)"
    and ok: "list_all (\<lambda>r. \<not> nullish r) reviewers"
    and au: "getP prDetails ''author'' = Inr author" "\<not> nullish author"
    and ex: "getP args ''additional_attendees'' = Inr given"
    and ex2: "given = Arr extras \<or> (\<not> truthy given \<and> extras = [])"
  shows "review_attendees args prDetails =
         ret (filter truthy (map (\<lambda>r. propOf r ''email'') reviewers @ [propOf author ''email''] @ extras))"
proof -
  have 1: "bnd (orElse (field args ''additional_attendees'') (ret (Arr []))) (spread w) = ret extras" for w
    using ex ex2 by (auto simp: orElse_def field_Inr bnd_ret)
  show ?thesis
    using rs ok au
    by (simp add: review_attendees_def field_Inr mapArr_fields bnd_ret field2_def field_ok 1
        filterBoolean_def)
qed

subsection \<open>Slugs\<close>







lemma replace_all_slug: "list_all slug_char (replace_non_slug s)"
  by (induction s) (simp_all add: replace_non_slug_def slug_char_def)

lemma replace_length: "length (replace_non_slug (toLowerCase s)) = length s"
  by (simp add: replace_non_slug_def toLowerCase_def)







lemma lowerReplace_Str: "lowerReplace what (Str t) = ret (Str (replace_non_slug (toLowerCase t)))"
  by (simp add: lowerReplace_def field_def lift_def bnd_def ret_def)


lemma repoName_eval:
  "getP args ''project_name'' = Inr (Str p) \<Longrightarrow>
   kickoff_repoName args = ret (Str (replace_non_slug (toLowerCase p)))"
  by (simp add: kickoff_repoName_def field_Inr bnd_ret lowerReplace_Str)

subsection \<open>Who is blamed for a failure\<close>


lemma failures_Nil: "failures [] = []"
  by (simp add: failures_def)







































subsection \<open>The catch blocks\<close>





lemma incident_catch_eval:
  assumes "\<not> nullish e"
  shows "incident_catch E rid start e s =
     (Inr (failure_envelope (''Failed to initiate incident response: '' @ toStr (propOf e ''message''))
            (clock E (trace s) - start)),
      s\<lparr>trace := trace s @
         [Now (clock E (trace s)),
          Log ''error'' ''Incident response workflow failed''
            (Obj [(''requestId'', rid), (''error'', propOf e ''message'')])]\<rparr>)"
  using assms
  by (simp add: incident_catch_def log_def obj_def tmpl_def lit_def logger_def emit_def now_def
      bnd_def ret_def field_def lift_def getP_ok Let_def failure_envelope_def)

lemma incident_catch_nullish:
  assumes "nullish e"
  shows "\<exists>msg. incident_catch E rid start e = bnd (now E) (\<lambda>t. throw (typeError msg))"
  using field_nullish[OF assms, of "''message''"]
  by (auto simp: incident_catch_def log_def obj_def bnd_ret bnd_throw Let_def)

subsection \<open>What a returned value looks like\<close>

lemma ret_Inr: "ret x s = (Inr v, s') \<Longrightarrow> v = x \<and> s' = s"
  by (simp add: ret_def)

lemma bnd_Inr:
  "bnd m f s = (Inr y, s'') \<Longrightarrow> \<exists>x s'. m s = (Inr x, s') \<and> f x s' = (Inr y, s'')"
  by (auto simp: bnd_def split: prod.splits sum.splits)

lemma sequence_Cons_Inr:
  "sequence (m # ms) s = (Inr xs, s'') \<Longrightarrow>
   \<exists>x s' xs'. m s = (Inr x, s') \<and> sequence ms s' = (Inr xs', s'') \<and> xs = x # xs'"
  by (auto simp: ret_def dest!: bnd_Inr)


lemma sequence_length: "sequence ms s = (Inr xs, s') \<Longrightarrow> length xs = length ms"
  by (induction ms arbitrary: s xs) (auto simp: ret_def dest!: bnd_Inr)

lemma obj_Inr:
  "obj kms s = (Inr v, s') \<Longrightarrow>
   \<exists>vs. sequence (map snd kms) s = (Inr vs, s') \<and> length vs = length kms \<and> v = Obj (zip (map fst kms) vs)"
  using sequence_length[of "map snd kms" s _ s']
  by (auto simp: obj_def ret_def dest!: bnd_Inr)

lemma obj_keys: "obj kms s = (Inr v, s') \<Longrightarrow> keys v = map fst kms"
  by (auto dest!: obj_Inr)



lemma pureD: "emits m (\<lambda>_. False) \<Longrightarrow> m s = (r, s') \<Longrightarrow> s' = s"
  by (auto simp: emits_def list_all_iff dest!: spec[of _ s])


subsection \<open>The last clock reading\<close>

lemma returns_stampedI:
  "(\<And>s v s'. m s = (Inr v, s') \<Longrightarrow> \<exists>t. stamped E (trace s) (trace s') t \<and> Q t v)
   \<Longrightarrow> returns_stamped E m Q"
  by (simp add: returns_stamped_def)

lemma returns_stampedD:
  "returns_stamped E m Q \<Longrightarrow> m s = (Inr v, s') \<Longrightarrow> \<exists>t. stamped E (trace s) (trace s') t \<and> Q t v"
  by (simp add: returns_stamped_def)




lemma stamped_last: "readings post = [] \<Longrightarrow> stamped E h (h @ Now (clock E h) # post) (clock E h)"
  unfolding stamped_def by (rule exI[of _ "[]"]) simp











subsection \<open>The catch blocks and the clock\<close>



lemma bnd_now_throw: "bnd (now E) (\<lambda>t. throw x) s \<noteq> (Inr v, s')"
  by (simp add: bnd_def now_def throw_def Let_def)


lemma incident_catch_stamped:
  "returns_stamped E (incident_catch E rid start e) (\<lambda>t v. \<exists>msg. v = failure_envelope msg (t - start))"
proof (cases "nullish e")
  case True
  from incident_catch_nullish[OF this, of E rid start] obtain msg where
    "incident_catch E rid start e = bnd (now E) (\<lambda>t. throw (typeError msg))" by blast
  then show ?thesis
    by (simp add: returns_stamped_def bnd_now_throw)
next
  case False
  show ?thesis
  proof (rule returns_stampedI)
    fix s v s'
    assume "incident_catch E rid start e s = (Inr v, s')"
    with incident_catch_eval[OF False, of E rid start s]
    show "\<exists>t. stamped E (trace s) (trace s') t \<and> (\<exists>msg. v = failure_envelope msg (t - start))"
      using stamped_last[of "[Log ''error'' ''Incident response workflow failed''
            (Obj [(''requestId'', rid), (''error'', propOf e ''message'')])]" E "trace s"]
      by (auto simp: readings_def)
  qed
qed


subsection \<open>Failures of collaborators\<close>















lemma new_events_append: "trace s' = trace s @ evs \<Longrightarrow> new_events s s' = evs"
  by (simp add: new_events_def)








lemma failure_envelope_fields:
  "keys (failure_envelope msg t) = [''success'', ''message'', ''executionTime'']"
  "propOf (failure_envelope msg t) ''success'' = Bool False"
  "propOf (failure_envelope msg t) ''message'' = Str msg"
  "propOf (failure_envelope msg t) ''executionTime'' = Str (show_int t @ ''ms'')"
  "propOf (failure_envelope msg t) ''details'' = Undefined"
  by (simp_all add: failure_envelope_def propOf_def lookup_def)



subsection \<open>Running the sample inputs\<close>

lemmas exec_defs = bnd_def ret_def throw_def lift_def field_def field2_def lit_def catch_def
  emit_def now_def logger_def log_def invoke_def call_def tmpl_def tmplS_def obj_def arr_def orElse_def
  mapArr_def filterBoolean_def joinArr_def join_def localPart_def slice0_def lastN_def lowerReplace_def
  newDate_def lookup_def Let_def typeError_def emoji_def mrkdwn_def joinLink_def

lemmas review_defs = scheduleCodeReview_def review_try_def review_catch_def review_fetch_def
  review_attendees_def review_findTime_def review_channelData_def review_channelName_def
  review_meetingSpec_def review_notesDoc_def review_message_def review_result_def

lemmas kickoff_defs = createProjectKickoff_def kickoff_try_def kickoff_catch_def kickoff_repoName_def
  kickoff_message_def kickoff_result_def

lemmas incident_defs = handleIncidentResponse_def incident_try_def incident_catch_def
  incident_issueData_def incident_channelData_def incident_alert_def incident_meetingSpec_def
  incident_joinMessage_def incident_escalate_def incident_result_def is_severe_def

lemmas demo_defs = demo_env_def no_slot_env_def demo_respond_def demo_world_def demo_user_def
  demo_review_def demo_kickoff_def demo_incident_def



lemma demo_rejects_with_values: "rejects_with_values demo_env"
  by (auto simp: rejects_with_values_def demo_env_def demo_respond_def)



subsection \<open>The repository of a kickoff\<close>

lemma repo_name_other: "m \<noteq> ''createRepository'' \<Longrightarrow> repo_name_of (Call c m as r) = []"
  by simp

lemma obj_first:
  assumes "obj ((k, ret x) # kms) s = (Inr v, s')"
  shows "propOf v k = x"
proof -
  from obj_Inr[OF assms] obtain vs where
    sq: "sequence (ret x # map snd kms) s = (Inr vs, s')" and v: "v = Obj (zip (k # map fst kms) vs)"
    by auto
  from sequence_Cons_Inr[OF sq] obtain xs where "vs = x # xs"
    by (auto dest!: ret_Inr)
  with v show ?thesis by (simp add: propOf_def lookup_def)
qed

lemma repo_call_args:
  assumes "sequence (obj ((''name'', ret x) # kms) # rest) s = (Inr as, s')"
  shows "propOf (argument 0 as) ''name'' = x"
proof -
  from sequence_Cons_Inr[OF assms] obtain v s1 xs where
    "obj ((''name'', ret x) # kms) s = (Inr v, s1)" "as = v # xs" by blast
  with obj_first[of "''name''" x kms s v s1] show ?thesis
    by (simp add: argument_def)
qed

lemma kickoff_try_repo:
  assumes pn: "getP args ''project_name'' = Inr (Str p)"
  shows "emits (kickoff_try E args uc rid start)
           (\<lambda>ev. list_all (\<lambda>n. n = Str (replace_non_slug (toLowerCase p))) (repo_name_of ev))"
  unfolding kickoff_try_def repoName_eval[OF pn] bnd_ret
  apply (intro emits_bnd)
          prefer 3
          apply (rule emits_call_val)
           apply (auto intro!: emits_all)[1]
          apply (drule repo_call_args)
          apply simp
         apply (auto intro!: emits_all simp: Let_def kickoff_message_def kickoff_result_def)
  done

lemma kickoff_repo:
  assumes pn: "getP args ''project_name'' = Inr (Str p)"
  shows "emits (createProjectKickoff E args uc rid)
           (\<lambda>ev. list_all (\<lambda>n. n = Str (replace_non_slug (toLowerCase p))) (repo_name_of ev))"
  unfolding createProjectKickoff_def
  by (intro emits_bnd emits_catch emits_now kickoff_try_repo[OF pn])
     (auto intro!: emits_all simp: kickoff_catch_def Let_def)

lemma repo_names_all:
  "list_all (\<lambda>ev. list_all P (repo_name_of ev)) evs \<Longrightarrow> list_all P (repo_names evs)"
  by (induction evs) (simp_all add: repo_names_def)

subsection \<open>The calls of a run that returns\<close>

lemma methods_append: "methods (a @ b) = methods a @ methods b"
  by (simp add: methods_def)

lemma methods_quiet: "list_all (\<lambda>ev. method_of ev = []) evs \<Longrightarrow> methods evs = []"
  by (induction evs) (simp_all add: methods_def)

lemma yieldsI:
  "(\<And>s x s'. m s = (Inr x, s') \<Longrightarrow> \<exists>evs. trace s' = trace s @ evs \<and> R evs) \<Longrightarrow> yields m R"
  by (simp add: yields_def)

lemma yieldsD: "yields m R \<Longrightarrow> m s = (Inr x, s') \<Longrightarrow> \<exists>evs. trace s' = trace s @ evs \<and> R evs"
  by (simp add: yields_def)

lemma yields_quiet:
  assumes "emits m (\<lambda>ev. method_of ev = [])"
  shows "yields m (\<lambda>evs. methods evs = [])"
proof (rule yieldsI)
  fix s x s'
  assume "m s = (Inr x, s')"
  from emitsD[OF assms this] show "\<exists>evs. trace s' = trace s @ evs \<and> methods evs = []"
    by (auto simp: methods_quiet)
qed

lemma yields_quiet_then:
  assumes m: "emits m (\<lambda>ev. method_of ev = [])"
    and f: "\<And>x. yields (f x) (\<lambda>evs. methods evs = ms)"
  shows "yields (bnd m f) (\<lambda>evs. methods evs = ms)"
proof (rule yieldsI)
  fix s y s'
  assume "bnd m f s = (Inr y, s')"
  from bnd_Inr[OF this] obtain x s1 where ms: "m s = (Inr x, s1)" and fs: "f x s1 = (Inr y, s')"
    by blast
  from emitsD[OF m ms] obtain evs1 where
    "trace s1 = trace s @ evs1" "list_all (\<lambda>ev. method_of ev = []) evs1" by blast
  moreover from yieldsD[OF f fs] obtain evs2 where "trace s' = trace s1 @ evs2" "methods evs2 = ms"
    by blast
  ultimately have "trace s' = trace s @ (evs1 @ evs2)" "methods (evs1 @ evs2) = ms"
    by (simp_all add: methods_append methods_quiet)
  then show "\<exists>evs. trace s' = trace s @ evs \<and> methods evs = ms" by blast
qed

lemma yields_then_quiet:
  assumes m: "yields m (\<lambda>evs. methods evs = ms)"
    and f: "\<And>x. emits (f x) (\<lambda>ev. method_of ev = [])"
  shows "yields (bnd m f) (\<lambda>evs. methods evs = ms)"
proof (rule yieldsI)
  fix s y s'
  assume "bnd m f s = (Inr y, s')"
  from bnd_Inr[OF this] obtain x s1 where ms: "m s = (Inr x, s1)" and fs: "f x s1 = (Inr y, s')"
    by blast
  from yieldsD[OF m ms] obtain evs1 where "trace s1 = trace s @ evs1" "methods evs1 = ms" by blast
  moreover from emitsD[OF f fs] obtain evs2 where
    "trace s' = trace s1 @ evs2" "list_all (\<lambda>ev. method_of ev = []) evs2" by blast
  ultimately have "trace s' = trace s @ (evs1 @ evs2)" "methods (evs1 @ evs2) = ms"
    by (simp_all add: methods_append methods_quiet)
  then show "\<exists>evs. trace s' = trace s @ evs \<and> methods evs = ms" by blast
qed

lemma await_same: "await p s = (r, s') \<Longrightarrow> s' = s"
  by (cases p) (auto simp: ret_def throw_def)

lemma call_Inr:
  assumes args: "list_all (\<lambda>m. emits m (\<lambda>ev. method_of ev = [])) argms"
    and run: "call E conn meth argms s = (Inr v, s')"
  shows "\<exists>evs. trace s' = trace s @ evs \<and> methods evs = [meth]"
proof -
  from bnd_Inr[OF run[unfolded call_def]] obtain as s1 where sq: "sequence argms s = (Inr as, s1)"
    and inv: "bnd (invoke E conn meth as) await s1 = (Inr v, s')"
    by blast
  from emitsD[OF emits_sequence[OF args] sq] obtain evs1 where
    e1: "trace s1 = trace s @ evs1" "list_all (\<lambda>ev. method_of ev = []) evs1" by blast
  from inv have "trace s' = trace s1 @ [Call (conn (self s1)) meth as (respond E (trace s1) (conn (self s1)) meth as)]"
    by (auto simp: bnd_def invoke_def Let_def dest!: await_same)
  with e1 have "trace s' = trace s @ (evs1 @ [Call (conn (self s1)) meth as (respond E (trace s1) (conn (self s1)) meth as)])"
    "methods (evs1 @ [Call (conn (self s1)) meth as (respond E (trace s1) (conn (self s1)) meth as)]) = [meth]"
    by (simp_all add: methods_append methods_quiet) (simp add: methods_def)
  then show ?thesis by blast
qed

lemma yields_call_then:
  assumes args: "list_all (\<lambda>m. emits m (\<lambda>ev. method_of ev = [])) argms"
    and f: "\<And>x. yields (f x) (\<lambda>evs. methods evs = ms)"
  shows "yields (bnd (call E conn meth argms) f) (\<lambda>evs. methods evs = meth # ms)"
proof (rule yieldsI)
  fix s y s'
  assume "bnd (call E conn meth argms) f s = (Inr y, s')"
  from bnd_Inr[OF this] obtain x s1 where
    ms: "call E conn meth argms s = (Inr x, s1)" and fs: "f x s1 = (Inr y, s')" by blast
  from call_Inr[OF args ms] obtain evs1 where "trace s1 = trace s @ evs1" "methods evs1 = [meth]"
    by blast
  moreover from yieldsD[OF f fs] obtain evs2 where "trace s' = trace s1 @ evs2" "methods evs2 = ms"
    by blast
  ultimately have "trace s' = trace s @ (evs1 @ evs2)" "methods (evs1 @ evs2) = meth # ms"
    by (simp_all add: methods_append)
  then show "\<exists>evs. trace s' = trace s @ evs \<and> methods evs = meth # ms" by blast
qed

lemma yields_never: "(\<And>s. \<exists>e s'. m s = (Inl e, s')) \<Longrightarrow> yields m R"
  by (auto simp: yields_def) (metis Inl_Inr_False prod.inject)

lemma incident_escalate_methods:
  "yields (incident_escalate E args uc rid notionIncident issue channel)
     (\<lambda>evs. methods evs =
        (if is_severe (propOf args ''severity'') then [''createMeeting'', ''sendMessage''] else []))"
proof (cases "nullish args")
  case True
  from field_nullish[OF this, of "''severity''"] obtain msg where
    "field args ''severity'' = throw (typeError msg)" by blast
  then have "incident_escalate E args uc rid notionIncident issue channel = throw (typeError msg)"
    by (simp add: incident_escalate_def bnd_throw)
  then show ?thesis
    by (intro yields_never) (simp add: throw_def)
next
  case False
  show ?thesis
  proof (cases "is_severe (propOf args ''severity'')")
    case True
    then show ?thesis
      unfolding incident_escalate_def field_ok[OF False] bnd_ret
      apply simp
      apply (rule yields_call_then)
       apply (auto intro!: emits_all simp: incident_meetingSpec_def)[1]
      apply (rule yields_call_then)
       apply (auto intro!: emits_all simp: incident_joinMessage_def)[1]
      apply (rule yields_quiet)
      apply (rule emits_ret)
      done
  next
    case sev: False
    then show ?thesis
      unfolding incident_escalate_def field_ok[OF False] bnd_ret
      by (simp add: yields_quiet emits_ret)
  qed
qed

lemma incident_try_methods:
  "yields (incident_try E args uc rid start)
     (\<lambda>evs. methods evs =
        ''createDocument'' # ''createIssue'' # ''createReviewChannel'' # ''sendMessage'' #
        (if is_severe (propOf args ''severity'') then [''createMeeting'', ''sendMessage''] else []))"
  unfolding incident_try_def
  apply (rule yields_quiet_then)
   apply (auto intro!: emits_all)[1]
  apply (rule yields_call_then)
   apply (auto intro!: emits_all)[1]
  apply (rule yields_quiet_then)
   apply (auto intro!: emits_all simp: incident_issueData_def)[1]
  apply (rule yields_call_then)
   apply (auto intro!: emits_all)[1]
  apply (rule yields_quiet_then)
   apply (auto intro!: emits_all simp: incident_channelData_def)[1]
  apply (rule yields_call_then)
   apply (auto intro!: emits_all)[1]
  apply (rule yields_call_then)
   apply (auto intro!: emits_all simp: incident_alert_def)[1]
  apply (rule yields_then_quiet)
   apply (rule incident_escalate_methods)
  apply (auto intro!: emits_all simp: incident_result_def Let_def)
  done

subsection \<open>The emergency meeting\<close>

lemma newDate_Inr:
  "newDate E k s = (Inr v, s') \<Longrightarrow>
   v = DateV (clock E (trace s) + k) \<and> trace s' = trace s @ [Now (clock E (trace s))]"
  by (auto simp: newDate_def bnd_def now_def Let_def ret_def)

lemma field_Inr_val: "field v k s = (Inr x, s') \<Longrightarrow> x = propOf v k \<and> s' = s"
  by (auto simp: field_def lift_def propOf_def)

lemma pure_tmpl_fields: "list_all (\<lambda>m. emits m (\<lambda>_. False)) parts \<Longrightarrow> emits (tmpl parts) (\<lambda>_. False)"
  by (rule emits_tmpl)

lemma meetingSpec_shape:
  assumes run: "incident_meetingSpec E args notionIncident issue channel s = (Inr spec, s')"
  shows "escalation_meeting E args spec"
proof -
  from obj_Inr[OF run[unfolded incident_meetingSpec_def]] obtain vs where
    sq: "sequence
          [tmpl [lit (emoji ''rotating_light''), lit '' Incident Response: '', field args ''title''],
           tmpl [lit ''Emergency response meeting for ongoing incident\<newline>\<newline>'',
                 lit ''Notion: '', field notionIncident ''url'', lit ''\<newline>'',
                 lit ''GitHub: '', field issue ''html_url'', lit ''\<newline>'',
                 lit ''Slack: '', field channel ''webUrl''],
           newDate E 0, newDate E (30 * 60 * 1000), field args ''responders'', field channel ''webUrl'',
           obj [(''createRequest'',
                 obj [(''requestId'', tmpl [lit ''incident-'', bnd (now E) (\<lambda>t. ret (Num t))])])]]
          s = (Inr vs, s')"
    and spec: "spec = Obj (zip [''title'', ''description'', ''startTime'', ''endTime'', ''attendees'',
                               ''location'', ''conferenceData''] vs)"
    by (auto simp del: sequence.simps)
  from sequence_Cons_Inr[OF sq] obtain x1 s1 r1 where
    m1: "tmpl [lit (emoji ''rotating_light''), lit '' Incident Response: '', field args ''title''] s
         = (Inr x1, s1)"
    and q1: "sequence
          [tmpl [lit ''Emergency response meeting for ongoing incident\<newline>\<newline>'',
                 lit ''Notion: '', field notionIncident ''url'', lit ''\<newline>'',
                 lit ''GitHub: '', field issue ''html_url'', lit ''\<newline>'',
                 lit ''Slack: '', field channel ''webUrl''],
           newDate E 0, newDate E (30 * 60 * 1000), field args ''responders'', field channel ''webUrl'',
           obj [(''createRequest'',
                 obj [(''requestId'', tmpl [lit ''incident-'', bnd (now E) (\<lambda>t. ret (Num t))])])]]
          s1 = (Inr r1, s')" and v1: "vs = x1 # r1"
    by blast
  from sequence_Cons_Inr[OF q1] obtain x2 s2 r2 where
    q2: "sequence
          [newDate E 0, newDate E (30 * 60 * 1000), field args ''responders'', field channel ''webUrl'',
           obj [(''createRequest'',
                 obj [(''requestId'', tmpl [lit ''incident-'', bnd (now E) (\<lambda>t. ret (Num t))])])]]
          s2 = (Inr r2, s')" and v2: "r1 = x2 # r2"
    by blast
  from sequence_Cons_Inr[OF q2] obtain x3 s3 r3 where
    m3: "newDate E 0 s2 = (Inr x3, s3)"
    and q3: "sequence
          [newDate E (30 * 60 * 1000), field args ''responders'', field channel ''webUrl'',
           obj [(''createRequest'',
                 obj [(''requestId'', tmpl [lit ''incident-'', bnd (now E) (\<lambda>t. ret (Num t))])])]]
          s3 = (Inr r3, s')" and v3: "r2 = x3 # r3"
    by blast
  from sequence_Cons_Inr[OF q3] obtain x4 s4 r4 where
    m4: "newDate E (30 * 60 * 1000) s3 = (Inr x4, s4)"
    and q4: "sequence
          [field args ''responders'', field channel ''webUrl'',
           obj [(''createRequest'',
                 obj [(''requestId'', tmpl [lit ''incident-'', bnd (now E) (\<lambda>t. ret (Num t))])])]]
          s4 = (Inr r4, s')" and v4: "r3 = x4 # r4"
    by blast
  from sequence_Cons_Inr[OF q4] obtain x5 s5 r5 where
    m5: "field args ''responders'' s4 = (Inr x5, s5)" and v5: "r4 = x5 # r5"
    by blast
  from newDate_Inr[OF m3] have x3: "x3 = DateV (clock E (trace s2))"
    and t3: "trace s3 = trace s2 @ [Now (clock E (trace s2))]" by simp_all
  from newDate_Inr[OF m4] t3 have
    x4: "x4 = DateV (clock E (trace s2 @ [Now (clock E (trace s2))]) + 30 * 60 * 1000)" by simp
  from field_Inr_val[OF m5] have x5: "x5 = propOf args ''responders''" by simp
  have "propOf spec ''startTime'' = x3" "propOf spec ''endTime'' = x4" "propOf spec ''attendees'' = x5"
    by (simp_all add: spec v1 v2 v3 v4 v5 propOf_def lookup_def)
  with x3 x4 x5 show ?thesis
    unfolding escalation_meeting_def by blast
qed

lemma meeting_call_args:
  assumes "sequence (incident_meetingSpec E args notionIncident issue channel # rest) s = (Inr as, s')"
  shows "escalation_meeting E args (argument 0 as)"
proof -
  from sequence_Cons_Inr[OF assms] obtain v s1 xs where
    "incident_meetingSpec E args notionIncident issue channel s = (Inr v, s1)" "as = v # xs" by blast
  with meetingSpec_shape[of E args notionIncident issue channel s v s1] show ?thesis
    by (simp add: argument_def)
qed

lemma incident_escalate_meetings:
  "emits (incident_escalate E args uc rid notionIncident issue channel)
     (\<lambda>ev. list_all (escalation_meeting E args) (meeting_of ev)
           \<and> (\<not> is_severe (propOf args ''severity'') \<longrightarrow> meeting_of ev = []))"
proof (cases "nullish args")
  case True
  from field_nullish[OF this, of "''severity''"] obtain msg where
    "field args ''severity'' = throw (typeError msg)" by blast
  then have "incident_escalate E args uc rid notionIncident issue channel = throw (typeError msg)"
    by (simp add: incident_escalate_def bnd_throw)
  then show ?thesis by (simp add: emits_throw)
next
  case False
  show ?thesis
  proof (cases "is_severe (propOf args ''severity'')")
    case True
    then show ?thesis
      unfolding incident_escalate_def field_ok[OF False] bnd_ret
      apply simp
      apply (intro emits_bnd)
        apply (rule emits_call_val)
         apply (auto intro!: emits_all simp: incident_meetingSpec_def)[1]
        apply (drule meeting_call_args)
        apply simp
       apply (auto intro!: emits_all simp: incident_joinMessage_def)
      done
  next
    case sev: False
    then show ?thesis
      unfolding incident_escalate_def field_ok[OF False] bnd_ret
      by (simp add: emits_ret)
  qed
qed

lemma emits_weaken: "emits m P \<Longrightarrow> (\<And>ev. P ev \<Longrightarrow> Q ev) \<Longrightarrow> emits m Q"
  by (auto simp: emits_def list_all_iff) blast+

lemma no_meeting_weaken:
  "emits m (\<lambda>ev. meeting_of ev = []) \<Longrightarrow>
   emits m (\<lambda>ev. list_all P (meeting_of ev) \<and> (Q \<longrightarrow> meeting_of ev = []))"
  by (erule emits_weaken) simp

lemma incident_meetings:
  "emits (handleIncidentResponse E args uc rid)
     (\<lambda>ev. list_all (escalation_meeting E args) (meeting_of ev)
           \<and> (\<not> is_severe (propOf args ''severity'') \<longrightarrow> meeting_of ev = []))"
  unfolding handleIncidentResponse_def incident_try_def
  apply (intro emits_bnd emits_catch incident_escalate_meetings)
            apply (rule no_meeting_weaken, (auto intro!: emits_all simp: Let_def incident_issueData_def
                     incident_channelData_def incident_alert_def incident_result_def incident_catch_def)[1])+
  done

lemma meetings_Cons: "meetings (ev # evs) = meeting_of ev @ meetings evs"
  by (simp add: meetings_def)

lemma meetings_list_all:
  "list_all (\<lambda>ev. list_all P (meeting_of ev)) evs \<Longrightarrow> list_all P (meetings evs)"
  by (induction evs) (simp_all add: meetings_Cons, simp add: meetings_def)

lemma meetings_none: "list_all (\<lambda>ev. meeting_of ev = []) evs \<Longrightarrow> meetings evs = []"
  by (induction evs) (simp_all add: meetings_Cons, simp add: meetings_def)

lemma meetings_all:
  assumes "list_all (\<lambda>ev. list_all P (meeting_of ev) \<and> (Q \<longrightarrow> meeting_of ev = [])) evs"
  shows "list_all P (meetings evs) \<and> (Q \<longrightarrow> meetings evs = [])"
proof -
  from assms have "list_all (\<lambda>ev. list_all P (meeting_of ev)) evs"
    by (simp add: list_all_iff)
  then have 1: "list_all P (meetings evs)" by (rule meetings_list_all)
  have 2: "meetings evs = []" if Q
  proof -
    from assms that have "list_all (\<lambda>ev. meeting_of ev = []) evs" by (simp add: list_all_iff)
    then show ?thesis by (rule meetings_none)
  qed
  from 1 2 show ?thesis by blast
qed

lemma methods_Cons: "methods (ev # evs) = method_of ev @ methods evs"
  by (simp add: methods_def)

lemma meetings_count: "length (meetings evs) = count_list (methods evs) ''createMeeting''"
proof (induction evs)
  case Nil
  show ?case by (simp add: meetings_def methods_def)
next
  case (Cons ev evs)
  show ?case
  proof (cases ev)
    case (Call c m as r)
    with Cons show ?thesis
      by (cases "m = ''createMeeting''") (simp_all add: meetings_Cons methods_Cons)
  next
    case (Now t)
    with Cons show ?thesis by (simp add: meetings_Cons methods_Cons)
  next
    case (Log l m meta)
    with Cons show ?thesis by (simp add: meetings_Cons methods_Cons)
  qed
qed

lemma incident_success_from_try:
  assumes run: "handleIncidentResponse E args uc rid s = (Inr v, s')"
    and ok: "propOf v ''success'' = Bool True"
  shows "incident_try E args uc rid (clock E (trace s)) (s\<lparr>trace := trace s @ [Now (clock E (trace s))]\<rparr>)
         = (Inr v, s')"
proof -
  define t0 where "t0 = clock E (trace s)"
  define s1 where "s1 = s\<lparr>trace := trace s @ [Now t0]\<rparr>"
  from run have c: "catch (incident_try E args uc rid t0) (incident_catch E rid t0) s1 = (Inr v, s')"
    by (simp add: handleIncidentResponse_def bnd_def now_def Let_def s1_def t0_def)
  obtain r1 s2 where tr: "incident_try E args uc rid t0 s1 = (r1, s2)"
    by (cases "incident_try E args uc rid t0 s1")
  show ?thesis
  proof (cases r1)
    case (Inr x)
    with c tr show ?thesis by (simp add: catch_def s1_def t0_def)
  next
    case (Inl e)
    with c tr have "incident_catch E rid t0 e s2 = (Inr v, s')" by (simp add: catch_def)
    from returns_stampedD[OF incident_catch_stamped this] ok show ?thesis
      by (auto simp: failure_envelope_fields)
  qed
qed


section \<open>The claims\<close>

text \<open>
  C3. The attendees of \<open>scheduleCodeReview\<close> are the requested reviewers' emails in order,
  then the author's email, then the optional additional attendees in order, with every
  falsy entry dropped. The reviewers are objects, the additional attendees are an array or
  absent.
\<close>

theorem C3_attendee_set:
  assumes "getP prDetails ''requestedReviewers'' = Inr (Arr reviewers)"
    and "list_all (\<lambda>r. \<not> nullish r) reviewers"
    and "getP prDetails ''author'' = Inr author" and "\<not> nullish author"
    and "getP args ''additional_attendees'' = Inr given"
    and "given = Arr extras \<or> (\<not> truthy given \<and> extras = [])"
  shows "review_attendees args prDetails s =
         (Inr (filter truthy (map (\<lambda>r. propOf r ''email'') reviewers
                              @ [propOf author ''email''] @ extras)), s)"
  using review_attendees_eval[OF assms] by (simp add: ret_def)

text \<open>
  The example of the specification: reviewers' emails \<open>a@x.com\<close> and undefined, author
  \<open>b@x.com\<close>, extras \<open>c@x.com\<close>.
\<close>

theorem C3_attendee_set_example:
  "review_attendees demo_review example_pr demo_world =
     (Inr [Str ''a@x.com'', Str ''b@x.com'', Str ''c@x.com''], demo_world)"
  using C3_attendee_set[of example_pr
      "[Obj [(''name'', Str ''Al''), (''email'', Str ''a@x.com'')],
        Obj [(''name'', Str ''Cy''), (''email'', Undefined)]]"
      "Obj [(''name'', Str ''Bea''), (''email'', Str ''b@x.com'')]"
      demo_review "Arr [Str ''c@x.com'']" "[Str ''c@x.com'']" demo_world]
  by (simp add: example_pr_def demo_review_def lookup_def propOf_def)



lemma show_12: "show_int 12 = ''12''"
  by code_simp











text \<open>
  C10. No workflow procedure assigns a field of the orchestrator: after any run, however
  it ends, \<open>github\<close>, \<open>slack\<close>, \<open>notion\<close>, \<open>calendar\<close>, \<open>automation\<close>, \<open>config\<close> and
  \<open>isInitialized\<close> are what they were, so nothing of the user context is kept there.
\<close>

theorem C10_orchestrator_unchanged:
  "self (snd (run E w args uc rid s)) = self s"
proof -
  obtain r s' where X: "run E w args uc rid s = (r, s')" by (cases "run E w args uc rid s")
  then have "self s' = self s"
    using emitsD[OF frame_scheduleCodeReview, of E args uc rid s r s']
      emitsD[OF frame_createProjectKickoff, of E args uc rid s r s']
      emitsD[OF frame_handleIncidentResponse, of E args uc rid s r s']
    by (cases w) simp_all
  with X show ?thesis by simp
qed

theorem C10_orchestrator_unchanged_example:
  "self (snd (run demo_env HandleIncidentResponse (demo_incident ''critical'') demo_user (Str ''req-1'')
                demo_world))
   = \<lparr>github = 1, slack = 2, notion = 3, calendar = 4, automation = 5, config = Obj [],
      isInitialized = True\<rparr>"
  using C10_orchestrator_unchanged[of demo_env HandleIncidentResponse "demo_incident ''critical''"
      demo_user "Str ''req-1''" demo_world]
  by (simp add: demo_world_def)

text \<open>For contrast, \<open>initialize\<close> does assign a field.\<close>

lemma initialize_sets_flag:
  "initialize E s = (Inr u, s') \<Longrightarrow> isInitialized (self s')"
  by (auto simp: initialize_def set_initialized_def logger_def emit_def dest!: bnd_Inr)

text \<open>
  C5, as amended. The name \<open>createProjectKickoff\<close> asks the repository to be created with
  is the project name in lower case with every character outside \<open>[a-z0-9-]\<close> replaced by
  \<open>-\<close>. It is not truncated: it has as many characters as the project name, and it is
  the slug of section 4.3 when the project name has at most 80 characters.
\<close>

theorem C5_repository_name:
  assumes "getP args ''project_name'' = Inr (Str p)"
    and "createProjectKickoff E args uc rid s = (r, s')"
  shows "list_all (\<lambda>n. n = Str (replace_non_slug (toLowerCase p))) (repo_names (new_events s s'))
         \<and> list_all slug_char (replace_non_slug (toLowerCase p))
         \<and> length (replace_non_slug (toLowerCase p)) = length p
         \<and> (length p \<le> 80 \<longrightarrow> replace_non_slug (toLowerCase p) = spec_slug p)"
proof -
  from emitsD[OF kickoff_repo[OF assms(1)] assms(2)] obtain evs where
    "trace s' = trace s @ evs"
    "list_all (\<lambda>ev. list_all (\<lambda>n. n = Str (replace_non_slug (toLowerCase p))) (repo_name_of ev)) evs"
    by blast
  then have "list_all (\<lambda>n. n = Str (replace_non_slug (toLowerCase p))) (repo_names (new_events s s'))"
    by (simp add: new_events_append repo_names_all)
  then show ?thesis
    by (simp add: replace_all_slug replace_length spec_slug_def)
qed

lemma long_name_lower: "replace_non_slug (toLowerCase long_name) = long_name"
  by (simp add: long_name_def replace_non_slug_def toLowerCase_def lower_char_def slug_char_def)

text \<open>
  C5 as stated fails for a project name of 81 characters: the repository is created
  under all 81 of them, while the slug rule of section 4.3 keeps 80.
\<close>

theorem C5_not_truncated:
  "repo_names (new_events demo_world
      (snd (createProjectKickoff demo_env long_kickoff demo_user (Str ''req-1'') demo_world)))
     = [Str long_name]
   \<and> length long_name = 81
   \<and> length (spec_slug long_name) = 80"
  by (simp add: exec_defs kickoff_defs demo_defs long_kickoff_def long_name_lower[unfolded replace_non_slug_def toLowerCase_def]
      new_events_def repo_names_def argument_def propOf_def spec_slug_def)
     (simp add: long_name_def long_name_lower[unfolded long_name_def] replace_length)

text \<open>
  C6. In \<open>handleIncidentResponse\<close>: when the severity is not exactly \<open>high\<close> or
  \<open>critical\<close>, no meeting is requested, whatever happens to the run. Every meeting the run
  requests starts at a reading of the clock, ends 30 minutes after the next reading and
  invites the responders. A run that returns the success envelope made exactly these
  calls, in this order: the document, the issue, one channel, one alert and, exactly
  when the severity is \<open>high\<close> or \<open>critical\<close>, one meeting and one more message.
\<close>

theorem C6_escalation:
  assumes "handleIncidentResponse E args uc rid s = (r, s')"
  shows "(\<not> is_severe (propOf args ''severity'') \<longrightarrow> meetings (new_events s s') = [])
         \<and> list_all (escalation_meeting E args) (meetings (new_events s s'))
         \<and> (\<forall>v. r = Inr v \<and> propOf v ''success'' = Bool True \<longrightarrow>
               methods (new_events s s') =
                 [''createDocument'', ''createIssue'', ''createReviewChannel'', ''sendMessage'']
                 @ (if is_severe (propOf args ''severity'') then [''createMeeting'', ''sendMessage'']
                    else [])
               \<and> length (meetings (new_events s s')) =
                   (if is_severe (propOf args ''severity'') then 1 else 0))"
proof -
  from emitsD[OF incident_meetings assms] obtain evs where
    evs: "trace s' = trace s @ evs"
    and all: "list_all (\<lambda>ev. list_all (escalation_meeting E args) (meeting_of ev)
           \<and> (\<not> is_severe (propOf args ''severity'') \<longrightarrow> meeting_of ev = [])) evs"
    by blast
  from meetings_all[OF all] evs have 1:
    "\<not> is_severe (propOf args ''severity'') \<longrightarrow> meetings (new_events s s') = []"
    "list_all (escalation_meeting E args) (meetings (new_events s s'))"
    by (simp_all add: new_events_append)
  have 2: "methods (new_events s s') =
             [''createDocument'', ''createIssue'', ''createReviewChannel'', ''sendMessage'']
             @ (if is_severe (propOf args ''severity'') then [''createMeeting'', ''sendMessage''] else [])
           \<and> length (meetings (new_events s s')) = (if is_severe (propOf args ''severity'') then 1 else 0)"
    if r: "r = Inr v" and ok: "propOf v ''success'' = Bool True" for v
  proof -
    from yieldsD[OF incident_try_methods incident_success_from_try[OF assms[unfolded r] ok]]
    obtain evs' where
      "trace s' = trace (s\<lparr>trace := trace s @ [Now (clock E (trace s))]\<rparr>) @ evs'"
      "methods evs' = ''createDocument'' # ''createIssue'' # ''createReviewChannel'' # ''sendMessage'' #
        (if is_severe (propOf args ''severity'') then [''createMeeting'', ''sendMessage''] else [])"
      by blast
    then have "methods (new_events s s') =
        ''createDocument'' # ''createIssue'' # ''createReviewChannel'' # ''sendMessage'' #
        (if is_severe (propOf args ''severity'') then [''createMeeting'', ''sendMessage''] else [])"
      by (simp add: new_events_def methods_def)
    then show ?thesis by (simp add: meetings_count)
  qed
  from 1 2 show ?thesis by simp
qed

end
